theory Spec2Isabelle
  imports Main "HOL-Library.Sublist" "HOL-Library.AList" "HOL-Library.Word"
begin

section \<open>Strings and paths\<close>

text \<open>
  \<^verbatim>\<open>std::string::find\<close>: the index of the first occurrence of the needle \<open>s\<close> in \<open>n\<close>,
  \<open>None\<close> standing for \<^verbatim>\<open>npos\<close>. The empty needle is found at index 0.
\<close>

fun str_find :: "string \<Rightarrow> string \<Rightarrow> nat option" where
  "str_find [] s = (if s = [] then Some 0 else None)"
| "str_find (c # cs) s =
     (if prefix s (c # cs) then Some 0 else map_option Suc (str_find cs s))"

text \<open>\<^verbatim>\<open>tolower\<close> on an \<^verbatim>\<open>unsigned char\<close> in the C locale: only A..Z change.\<close>

definition tolower :: "char \<Rightarrow> char" where
  "tolower c =
     (let n = (of_char c :: nat) in if 65 \<le> n \<and> n \<le> 90 then char_of (n + 32) else c)"

type_synonym path = string

text \<open>\<^verbatim>\<open>fs::path::filename\<close>: what follows the last separator.\<close>

definition filename :: "path \<Rightarrow> string" where
  "filename p = rev (takeWhile (\<lambda>c. c \<noteq> CHR ''/'') (rev p))"

text \<open>
  \<^verbatim>\<open>fs::path::extension\<close>: the part of the filename from its rightmost period on; empty
  for the names \<open>.\<close> and \<open>..\<close>, for a name with no period, and for a name whose only
  period is its first character.
\<close>

definition extension :: "path \<Rightarrow> string" where
  "extension p =
     (let f = filename p in
      if f = ''.'' \<or> f = ''..'' then []
      else
        let tl = takeWhile (\<lambda>c. c \<noteq> CHR ''.'') (rev f) in
        if length tl = length f then []
        else if Suc (length tl) = length f then []
        else CHR ''.'' # rev tl)"

text \<open>\<^verbatim>\<open>fs::path::parent_path\<close>: the path without its last component.\<close>

definition parent_path :: "path \<Rightarrow> path" where
  "parent_path p = rev (drop 1 (dropWhile (\<lambda>c. c \<noteq> CHR ''/'') (rev p)))"

text \<open>\<^verbatim>\<open>operator/\<close> on paths: an absolute right operand replaces the left one.\<close>

definition path_append :: "path \<Rightarrow> path \<Rightarrow> path" where
  "path_append a b =
     (if b \<noteq> [] \<and> hd b = CHR ''/'' then b
      else if a = [] \<or> last a = CHR ''/'' then a @ b
      else a @ ''/'' @ b)"

text \<open>
  \<open>under d q\<close>: the path \<open>q\<close> lies below the directory \<open>d\<close>; \<open>subtree d q\<close>: it is
  \<open>d\<close> itself or lies below it.
\<close>

definition under :: "path \<Rightarrow> path \<Rightarrow> bool" where
  "under d q = prefix (d @ ''/'') q"

definition subtree :: "path \<Rightarrow> path \<Rightarrow> bool" where
  "subtree d q = (q = d \<or> under d q)"

text \<open>
  The chain of directories that \<^verbatim>\<open>create_directories\<close> walks for a path: every prefix
  that ends at a component boundary, shortest first.
\<close>

fun dir_chain :: "string \<Rightarrow> string \<Rightarrow> path list" where
  "dir_chain acc [] = (if acc = [] \<or> last acc = CHR ''/'' then [] else [acc])"
| "dir_chain acc (c # cs) =
     (if c = CHR ''/'' \<and> acc \<noteq> [] \<and> last acc \<noteq> CHR ''/''
      then acc # dir_chain (acc @ [c]) cs
      else dir_chain (acc @ [c]) cs)"


section \<open>The file system\<close>

text \<open>
  The host file system is a collaborator of the updater. It is modelled as a finite
  table from paths to nodes; the order of the table is the order in which a directory
  traversal meets the entries. A regular file carries its bytes.

  Every mutating operation is called by the updater through its \<^verbatim>\<open>error_code\<close>
  overload: it either takes effect or reports an error and leaves the table as it
  was. Whether the operating system refuses an operation (a locked image, missing
  permissions, a full disk) is decided by a fault table \<open>D\<close> on the operation and its
  arguments; an \<^verbatim>\<open>error_code\<close> is \<open>None\<close> when clear and carries the message otherwise.

  The status queries \<^verbatim>\<open>fs::exists (p)\<close> and \<^verbatim>\<open>fs::is_directory (p)\<close> are called through
  their overloads without an \<^verbatim>\<open>error_code\<close>: when the status of \<open>p\<close> cannot be read
  (no search permission on the way to it, a loop of links) they throw a
  \<^verbatim>\<open>filesystem_error\<close>. The fault \<open>OpStatus p\<close> of the table decides that. \<open>exists\<close> and
  \<open>is_directory\<close> below are the answers of a query that is answered; the empty path
  names nothing. \<open>fs_exists\<close> and \<open>fs_is_directory\<close> are the throwing calls, \<open>Inl\<close> being
  the exception with its message.
\<close>

datatype node = File string | Dir

type_synonym filesystem = "(path \<times> node) list"

type_synonym error_code = "string option"

datatype fs_op =
    OpCopyFile path path
  | OpRename path path
  | OpRemove path
  | OpRemoveAll path
  | OpPermissions path
  | OpCreateDirectories path
  | OpWrite path
  | OpStatus path

type_synonym fs_faults = "fs_op \<Rightarrow> error_code"

definition lookup :: "filesystem \<Rightarrow> path \<Rightarrow> node option" where
  "lookup fs p = (if p = [] then None else map_of fs p)"

definition exists :: "filesystem \<Rightarrow> path \<Rightarrow> bool" where
  "exists fs p = (lookup fs p \<noteq> None)"

definition is_directory :: "filesystem \<Rightarrow> path \<Rightarrow> bool" where
  "is_directory fs p = (lookup fs p = Some Dir)"

definition is_regular_file :: "filesystem \<Rightarrow> path \<Rightarrow> bool" where
  "is_regular_file fs p = (case lookup fs p of Some (File c) \<Rightarrow> True | _ \<Rightarrow> False)"

definition fs_exists :: "fs_faults \<Rightarrow> filesystem \<Rightarrow> path \<Rightarrow> string + bool" where
  "fs_exists D fs p = (case D (OpStatus p) of Some m \<Rightarrow> Inl m | None \<Rightarrow> Inr (exists fs p))"

definition fs_is_directory :: "fs_faults \<Rightarrow> filesystem \<Rightarrow> path \<Rightarrow> string + bool" where
  "fs_is_directory D fs p =
     (case D (OpStatus p) of Some m \<Rightarrow> Inl m | None \<Rightarrow> Inr (is_directory fs p))"

definition has_children :: "filesystem \<Rightarrow> path \<Rightarrow> bool" where
  "has_children fs d = list_ex (\<lambda>e. under d (fst e)) fs"

text \<open>\<^verbatim>\<open>fs::copy_file (from, to, overwrite_existing, ec)\<close>.\<close>

definition fs_copy_file :: "fs_faults \<Rightarrow> path \<Rightarrow> path \<Rightarrow> filesystem \<Rightarrow> filesystem \<times> error_code" where
  "fs_copy_file D from to fs =
     (case D (OpCopyFile from to) of
        Some m \<Rightarrow> (fs, Some m)
      | None \<Rightarrow>
          (case lookup fs from of
             None \<Rightarrow> (fs, Some ''No such file or directory'')
           | Some Dir \<Rightarrow> (fs, Some ''Invalid argument'')
           | Some (File c) \<Rightarrow>
               if from = to then (fs, Some ''File exists'')
               else if to = [] then (fs, Some ''No such file or directory'')
               else if is_directory fs to then (fs, Some ''Is a directory'')
               else (AList.update to (File c) fs, None)))"

text \<open>\<^verbatim>\<open>fs::remove (p, ec)\<close>: a missing path is no error; a directory must be empty.\<close>

definition fs_remove :: "fs_faults \<Rightarrow> path \<Rightarrow> filesystem \<Rightarrow> filesystem \<times> error_code" where
  "fs_remove D p fs =
     (case D (OpRemove p) of
        Some m \<Rightarrow> (fs, Some m)
      | None \<Rightarrow>
          if is_directory fs p \<and> has_children fs p then (fs, Some ''Directory not empty'')
          else (AList.delete p fs, None))"

text \<open>\<^verbatim>\<open>fs::remove_all (p, ec)\<close>: the path and everything below it.\<close>

definition fs_remove_all :: "fs_faults \<Rightarrow> path \<Rightarrow> filesystem \<Rightarrow> filesystem \<times> error_code" where
  "fs_remove_all D p fs =
     (case D (OpRemoveAll p) of
        Some m \<Rightarrow> (fs, Some m)
      | None \<Rightarrow> (filter (\<lambda>e. \<not> subtree p (fst e)) fs, None))"

text \<open>Moving a directory takes its whole subtree along.\<close>

definition move_tree :: "path \<Rightarrow> path \<Rightarrow> filesystem \<Rightarrow> filesystem" where
  "move_tree old new fs =
     map (\<lambda>e. if subtree old (fst e) then (new @ drop (length old) (fst e), snd e) else e)
       (filter (\<lambda>e. fst e \<noteq> new) fs)"

text \<open>\<^verbatim>\<open>fs::rename (old, new, ec)\<close>, with the POSIX rules for an existing target.\<close>

definition fs_rename :: "fs_faults \<Rightarrow> path \<Rightarrow> path \<Rightarrow> filesystem \<Rightarrow> filesystem \<times> error_code" where
  "fs_rename D old new fs =
     (case D (OpRename old new) of
        Some m \<Rightarrow> (fs, Some m)
      | None \<Rightarrow>
          (case lookup fs old of
             None \<Rightarrow> (fs, Some ''No such file or directory'')
           | Some (File c) \<Rightarrow>
               if old = new then (fs, None)
               else if new = [] then (fs, Some ''No such file or directory'')
               else if is_directory fs new then (fs, Some ''Is a directory'')
               else (AList.update new (File c) (AList.delete old fs), None)
           | Some Dir \<Rightarrow>
               if old = new then (fs, None)
               else if new = [] then (fs, Some ''No such file or directory'')
               else if subtree old new then (fs, Some ''Invalid argument'')
               else if is_regular_file fs new then (fs, Some ''Not a directory'')
               else if has_children fs new then (fs, Some ''Directory not empty'')
               else (move_tree old new fs, None)))"

text \<open>
  \<^verbatim>\<open>fs::permissions (p, exec bits, add, ec)\<close>: the table holds no permission bits, so
  only the error code is visible.
\<close>

definition fs_permissions :: "fs_faults \<Rightarrow> path \<Rightarrow> filesystem \<Rightarrow> filesystem \<times> error_code" where
  "fs_permissions D p fs =
     (case D (OpPermissions p) of
        Some m \<Rightarrow> (fs, Some m)
      | None \<Rightarrow> if exists fs p then (fs, None) else (fs, Some ''No such file or directory''))"

text \<open>\<^verbatim>\<open>fs::create_directories (p, ec)\<close>: every missing directory of the chain is made.\<close>

definition fs_create_directories :: "fs_faults \<Rightarrow> path \<Rightarrow> filesystem \<Rightarrow> filesystem \<times> error_code" where
  "fs_create_directories D p fs =
     (case D (OpCreateDirectories p) of
        Some m \<Rightarrow> (fs, Some m)
      | None \<Rightarrow>
          if list_ex (is_regular_file fs) (dir_chain [] p) then (fs, Some ''Not a directory'')
          else (fold (\<lambda>q f. if exists f q then f else AList.update q Dir f) (dir_chain [] p) fs,
                None))"


section \<open>Release discovery\<close>

subsection \<open>Data\<close>

text \<open>
  The release and asset descriptors come from the registry client; the code reads the
  fields below. \<open>size'\<close> is the field \<^verbatim>\<open>size\<close>.
\<close>

record asset_type =
  name :: string
  browser_download_url :: string
  size' :: "64 word"

record release_type =
  tag_name :: string
  html_url :: string
  body :: string
  draft :: bool
  prerelease :: bool
  assets :: "asset_type list"

text \<open>
  \<^verbatim>\<open>update_info\<close>, with the fields that \<^verbatim>\<open>release_to_update_info\<close> assigns. The fields
  carry the prefix \<open>ui_\<close> because several have the names of release fields. The version
  type \<open>'v\<close> stands for \<^verbatim>\<open>launcher_version\<close>, whose parser is a parameter below.
\<close>

record 'v update_info =
  ui_version :: 'v
  ui_tag_name :: string
  ui_release_url :: string
  ui_prerelease :: bool
  ui_body :: string
  ui_asset_url :: string
  ui_asset_name :: string
  ui_asset_size :: "64 word"

text \<open>
  Modelled from the spec: the declaration of \<^verbatim>\<open>update_info\<close> is in a header that is not
  part of the sources at hand. The spec calls the default-constructed value the
  explicit empty sentinel meaning that there is no eligible update; \<open>v0\<close> is the
  default-constructed version.
\<close>

definition update_info_default :: "'v \<Rightarrow> 'v update_info" where
  "update_info_default v0 =
     \<lparr>ui_version = v0, ui_tag_name = [], ui_release_url = [], ui_prerelease = False,
      ui_body = [], ui_asset_url = [], ui_asset_name = [], ui_asset_size = 0\<rparr>"

text \<open>
  The platforms that \<^verbatim>\<open>find_platform_asset\<close> tells apart; \<open>other_platform\<close> stands for
  any enumerator that reaches the \<^verbatim>\<open>default\<close> label of its switch.
\<close>

datatype platform_type = unknown | windows_x64 | linux_x64 | other_platform

text \<open>
  What the discovery object holds and calls: the flag \<^verbatim>\<open>include_prerelease_\<close>, the
  registry client's \<^verbatim>\<open>get_releases\<close> (a network failure is \<open>Inl\<close>), the version parser,
  the running platform and the default-constructed version.
\<close>

record 'v update_discovery =
  include_prerelease :: bool
  get_releases :: "string \<Rightarrow> string \<Rightarrow> nat \<Rightarrow> string + release_type list"
  parse_launcher_version :: "string \<Rightarrow> 'v option"
  current_platform :: platform_type
  no_version :: 'v

subsection \<open>Asset selection\<close>

text \<open>The suffix and extension that the switch of \<^verbatim>\<open>find_platform_asset\<close> assigns.\<close>

fun platform_profile :: "platform_type \<Rightarrow> (string \<times> string) option" where
  "platform_profile windows_x64 = Some (''x86_64-windows'', ''.zip'')"
| "platform_profile linux_x64 = Some (''x86_64-linux-glibc'', ''.tar.xz'')"
| "platform_profile _ = None"

text \<open>The scan over \<^verbatim>\<open>r.assets\<close>: the first asset whose name passes the three tests.\<close>

fun scan_assets :: "string \<Rightarrow> string \<Rightarrow> asset_type list \<Rightarrow> asset_type option" where
  "scan_assets s e [] = None"
| "scan_assets s e (a # as) =
     (if str_find (name a) s \<noteq> None \<and> str_find (name a) e \<noteq> None \<and>
         str_find (name a) ''launcher-'' = Some 0
      then Some a
      else scan_assets s e as)"

definition find_platform_asset :: "platform_type \<Rightarrow> release_type \<Rightarrow> asset_type option" where
  "find_platform_asset p r =
     (if p = unknown then None
      else case platform_profile p of
             None \<Rightarrow> None
           | Some (s, e) \<Rightarrow> scan_assets s e (assets r))"

subsection \<open>Version resolution\<close>

definition sufs :: "string list" where
  "sufs = [''-x86_64-windows'', ''-x86_64-linux-glibc'']"

text \<open>The loop over \<open>sufs\<close>: the position of the first suffix that occurs in the name.\<close>

fun suffix_pos :: "string \<Rightarrow> string list \<Rightarrow> nat option" where
  "suffix_pos n [] = None"
| "suffix_pos n (s # ss) =
     (case str_find n s of Some pos \<Rightarrow> Some pos | None \<Rightarrow> suffix_pos n ss)"

definition parse_asset_version :: "(string \<Rightarrow> 'v option) \<Rightarrow> string \<Rightarrow> 'v option" where
  "parse_asset_version parse n =
     (let p = ''launcher-'' in
      if str_find n p \<noteq> Some 0 then None
      else
        let b = length p in
        case suffix_pos n sufs of
          None \<Rightarrow> None
        | Some e \<Rightarrow> if e \<le> b then None else parse (take (e - b) (drop b n)))"

definition release_to_update_info :: "'v update_discovery \<Rightarrow> release_type \<Rightarrow> 'v update_info" where
  "release_to_update_info U r =
     (let ui = update_info_default (no_version U) in
      case find_platform_asset (current_platform U) r of
        None \<Rightarrow> ui
      | Some a \<Rightarrow>
          (case (case parse_asset_version (parse_launcher_version U) (name a) of
                   Some v \<Rightarrow> Some v
                 | None \<Rightarrow> parse_launcher_version U (tag_name r)) of
             None \<Rightarrow> ui
           | Some v \<Rightarrow>
               \<lparr>ui_version = v, ui_tag_name = tag_name r, ui_release_url = html_url r,
                ui_prerelease = prerelease r, ui_body = body r,
                ui_asset_url = browser_download_url a, ui_asset_name = name a,
                ui_asset_size = size' a\<rparr>))"

subsection \<open>Release selection\<close>

text \<open>The loop of \<^verbatim>\<open>fetch_latest_release\<close> over the batch; \<open>None\<close> is the null pointer.\<close>

fun pick_release :: "bool \<Rightarrow> release_type list \<Rightarrow> release_type option" where
  "pick_release incl [] = None"
| "pick_release incl (i # rs) =
     (if draft i then pick_release incl rs
      else if incl \<or> \<not> prerelease i then Some i
      else pick_release incl rs)"

definition fetch_latest_release ::
  "'v update_discovery \<Rightarrow> string \<Rightarrow> string \<Rightarrow> string + 'v update_info" where
  "fetch_latest_release U ow rp =
     (case get_releases U ow rp 20 of
        Inl e \<Rightarrow> Inl e
      | Inr rs \<Rightarrow>
          if rs = [] then Inr (update_info_default (no_version U))
          else (case pick_release (include_prerelease U) rs of
                  None \<Rightarrow> Inr (update_info_default (no_version U))
                | Some b \<Rightarrow> Inr (release_to_update_info U b)))"


section \<open>The installer\<close>

subsection \<open>Data\<close>

text \<open>
  Modelled from the spec: the declaration of \<^verbatim>\<open>update_result\<close> is in a header that is
  not part of the sources at hand. The spec gives the four fields; a fresh result is
  not successful (only the last step of the replacement marks it so) and has empty
  paths and an empty message.
\<close>

record update_result =
  success :: bool
  installed_path :: path
  backup_path :: path
  error_message :: string

definition update_result_default :: update_result where
  "update_result_default =
     \<lparr>success = False, installed_path = [], backup_path = [], error_message = []\<rparr>"

text \<open>
  One entry of a zip archive as the miniz reader presents it: whether its record can be
  read (\<^verbatim>\<open>mz_zip_reader_file_stat\<close>), whether it is a directory, its name, and its
  bytes (\<open>None\<close> when the entry cannot be decompressed).
\<close>

record zip_entry =
  stat_ok :: bool
  is_a_directory :: bool
  m_filename :: string
  payload :: "string option"

text \<open>
  What the installer is built on. \<open>deny\<close> is the fault table of the file system and
  \<open>posix\<close> tells whether the code was compiled without \<^verbatim>\<open>_WIN32\<close>. The transport's
  \<^verbatim>\<open>download (url, target, ...)\<close> changes the file system and may raise; the second
  component is then the exception's message. \<open>mz_zip_reader\<close> decodes the bytes of an
  archive (\<open>None\<close>: \<^verbatim>\<open>mz_zip_reader_init_file\<close> fails). \<open>run_system\<close> is \<^verbatim>\<open>system\<close>, with
  the exit code. \<open>native_exe_path\<close> is the answer of the operating system to the
  question where the running image is, \<open>cwd\<close> the one of \<^verbatim>\<open>fs::current_path (ec)\<close>.
  \<open>info_empty\<close> is \<^verbatim>\<open>update_info::empty\<close>, declared outside the sources at hand.
\<close>

record 'v installer_env =
  deny :: fs_faults
  posix :: bool
  http_download :: "string \<Rightarrow> path \<Rightarrow> filesystem \<Rightarrow> filesystem \<times> string option"
  mz_zip_reader :: "string \<Rightarrow> zip_entry list option"
  run_system :: "string \<Rightarrow> filesystem \<Rightarrow> filesystem \<times> int"
  native_exe_path :: "path option"
  cwd :: "path option"
  info_empty :: "'v update_info \<Rightarrow> bool"

text \<open>
  The installer object together with the disk it works on: \<^verbatim>\<open>download_dir_\<close>,
  \<^verbatim>\<open>temp_files_\<close>, and \<open>cleanups\<close>, the number of times \<^verbatim>\<open>cleanup\<close> has been entered
  (each entry writes the record \<^verbatim>\<open>cleaning up N temporary files/directories\<close> to the
  log).
\<close>

record installer_state =
  fs :: filesystem
  download_dir :: path
  temp_files :: "path list"
  cleanups :: nat

subsection \<open>Rollback and cleanup\<close>

text \<open>\<^verbatim>\<open>rollback\<close>, in a call in which every status query is answered.\<close>

definition rollback :: "fs_faults \<Rightarrow> update_result \<Rightarrow> filesystem \<Rightarrow> bool \<times> filesystem" where
  "rollback D r fs0 =
     (if backup_path r = [] \<or> installed_path r = [] then (False, fs0)
      else
        let (fs1, ec) =
              (if exists fs0 (installed_path r) then fs_remove D (installed_path r) fs0
               else (fs0, None))
        in case ec of
             Some m \<Rightarrow> (False, fs1)
           | None \<Rightarrow>
               if exists fs1 (backup_path r)
               then (let (fs2, ec') = fs_rename D (backup_path r) (installed_path r) fs1
                     in case ec' of Some m \<Rightarrow> (False, fs2) | None \<Rightarrow> (True, fs2))
               else (False, fs1))"

text \<open>
  \<^verbatim>\<open>rollback\<close> with its two throwing status queries. The first component is the value
  returned, or the message of the exception that leaves the function.
\<close>

definition rollback_throwing ::
  "fs_faults \<Rightarrow> update_result \<Rightarrow> filesystem \<Rightarrow> (string + bool) \<times> filesystem" where
  "rollback_throwing D r fs0 =
     (if backup_path r = [] \<or> installed_path r = [] then (Inr False, fs0)
      else
        (case fs_exists D fs0 (installed_path r) of
           Inl m \<Rightarrow> (Inl m, fs0)
         | Inr ex \<Rightarrow>
             (let (fs1, ec) =
                    (if ex then fs_remove D (installed_path r) fs0 else (fs0, None))
              in case ec of
                   Some m \<Rightarrow> (Inr False, fs1)
                 | None \<Rightarrow>
                     (case fs_exists D fs1 (backup_path r) of
                        Inl m \<Rightarrow> (Inl m, fs1)
                      | Inr exb \<Rightarrow>
                          if exb
                          then (let (fs2, ec') =
                                      fs_rename D (backup_path r) (installed_path r) fs1
                                in case ec' of
                                     Some m \<Rightarrow> (Inr False, fs2)
                                   | None \<Rightarrow> (Inr True, fs2))
                          else (Inr False, fs1)))))"

text \<open>
  The loop of \<^verbatim>\<open>cleanup\<close> over \<^verbatim>\<open>temp_files_\<close>. The error code of a removal is only
  logged. A status query that throws ends the loop: the second component is then the
  message of the exception, and the file system is as the loop left it.
\<close>

fun cleanup_loop :: "fs_faults \<Rightarrow> path list \<Rightarrow> filesystem \<Rightarrow> filesystem \<times> string option" where
  "cleanup_loop D [] fs0 = (fs0, None)"
| "cleanup_loop D (p # ps) fs0 =
     (case fs_exists D fs0 p of
        Inl m \<Rightarrow> (fs0, Some m)
      | Inr ex \<Rightarrow>
          if ex
          then (case fs_is_directory D fs0 p of
                  Inl m \<Rightarrow> (fs0, Some m)
                | Inr dir \<Rightarrow>
                    cleanup_loop D ps
                      (fst (if dir then fs_remove_all D p fs0 else fs_remove D p fs0)))
          else cleanup_loop D ps fs0)"

text \<open>
  \<^verbatim>\<open>cleanup\<close>. The first component is the message of the exception that leaves the
  function, if any; \<^verbatim>\<open>temp_files_.clear ()\<close> is then not reached.
\<close>

definition cleanup :: "fs_faults \<Rightarrow> installer_state \<Rightarrow> string option \<times> installer_state" where
  "cleanup D st =
     (let st1 = st\<lparr>cleanups := Suc (cleanups st)\<rparr>;
          (fs1, ex) = cleanup_loop D (temp_files st) (fs st)
      in case ex of
           Some m \<Rightarrow> (Some m, st1\<lparr>fs := fs1\<rparr>)
         | None \<Rightarrow> (None, st1\<lparr>fs := fs1, temp_files := []\<rparr>))"

subsection \<open>Replacing the executable\<close>

definition backup_path_for :: "path \<Rightarrow> path" where
  "backup_path_for p = p @ ''.backup''"

definition staging_path :: "path \<Rightarrow> path" where
  "staging_path p = p @ ''.new''"

text \<open>
  First \<^verbatim>\<open>replace_launcher\<close> in a call in which every status query is answered, in
  its three blocks; the throwing queries follow below.
\<close>

text \<open>The removal of a stale backup, before the current executable is moved there.\<close>

definition remove_stale_backup :: "fs_faults \<Rightarrow> path \<Rightarrow> filesystem \<Rightarrow> filesystem" where
  "remove_stale_backup D b fs0 = (if exists fs0 b then fst (fs_remove D b fs0) else fs0)"

text \<open>
  The second block of \<^verbatim>\<open>replace_launcher\<close>: move the current executable to the backup
  path. \<open>Inl\<close> is the early return after the failed copy, \<open>Inr\<close> goes on to the swap.
\<close>

definition rl_backup ::
  "fs_faults \<Rightarrow> path \<Rightarrow> update_result \<Rightarrow> filesystem
     \<Rightarrow> (update_result \<times> filesystem) + (update_result \<times> filesystem)" where
  "rl_backup D t r fs0 =
     (let b = backup_path_for t; s = staging_path t in
      if exists fs0 t then
        let fs1 = remove_stale_backup D b fs0;
            (fs2, ec) = fs_rename D t b fs1
        in case ec of
             None \<Rightarrow> Inr (r\<lparr>backup_path := b\<rparr>, fs2)
           | Some m \<Rightarrow>
               (let (fs3, ec') = fs_copy_file D t b fs2
                in case ec' of
                     Some m' \<Rightarrow>
                       Inl (r\<lparr>error_message := ''failed to backup current launcher: '' @ m'\<rparr>,
                            fst (fs_remove D s fs3))
                   | None \<Rightarrow> Inr (r\<lparr>backup_path := b\<rparr>, fs3))
      else Inr (r, fs0))"

text \<open>The third block: rename the staged binary into place, else copy, else restore.\<close>

definition rl_swap ::
  "fs_faults \<Rightarrow> path \<Rightarrow> update_result \<Rightarrow> filesystem \<Rightarrow> update_result \<times> filesystem" where
  "rl_swap D t r fs0 =
     (let b = backup_path_for t; s = staging_path t;
          (fs1, ec) = fs_rename D s t fs0
      in case ec of
           None \<Rightarrow> (r\<lparr>success := True\<rparr>, fs1)
         | Some m \<Rightarrow>
             (let (fs2, ec') = fs_copy_file D s t fs1
              in case ec' of
                   Some m' \<Rightarrow>
                     (r\<lparr>error_message := ''failed to install new launcher: '' @ m'\<rparr>,
                      if backup_path r \<noteq> [] \<and> exists fs2 b then fst (fs_rename D b t fs2)
                      else fs2)
                 | None \<Rightarrow> (r\<lparr>success := True\<rparr>, fst (fs_remove D s fs2))))"

definition replace_launcher ::
  "fs_faults \<Rightarrow> bool \<Rightarrow> path \<Rightarrow> path \<Rightarrow> filesystem \<Rightarrow> update_result \<times> filesystem" where
  "replace_launcher D px nb t fs0 =
     (let r = update_result_default\<lparr>installed_path := t\<rparr>;
          s = staging_path t;
          (fs1, ec) = fs_copy_file D nb s fs0
      in case ec of
           Some m \<Rightarrow> (r\<lparr>error_message := ''failed to copy new binary: '' @ m\<rparr>, fs1)
         | None \<Rightarrow>
             (let fs2 = (if px then fst (fs_permissions D s fs1) else fs1)
              in case rl_backup D t r fs2 of
                   Inl res \<Rightarrow> res
                 | Inr (r', fs3) \<Rightarrow> rl_swap D t r' fs3))"

text \<open>
  \<^verbatim>\<open>replace_launcher\<close> with its throwing status queries: \<^verbatim>\<open>fs::exists (t)\<close> and
  \<^verbatim>\<open>fs::exists (b)\<close> in the second block and \<^verbatim>\<open>fs::exists (b)\<close> before the emergency
  restore. \<open>Inl\<close> is the exception, with the file system as it is when it is thrown.
\<close>

definition rl_backup_throwing ::
  "fs_faults \<Rightarrow> path \<Rightarrow> update_result \<Rightarrow> filesystem
     \<Rightarrow> (string \<times> filesystem) +
        ((update_result \<times> filesystem) + (update_result \<times> filesystem))" where
  "rl_backup_throwing D t r fs0 =
     (let b = backup_path_for t; s = staging_path t in
      case fs_exists D fs0 t of
        Inl m \<Rightarrow> Inl (m, fs0)
      | Inr ext \<Rightarrow>
          if ext then
            (case fs_exists D fs0 b of
               Inl m \<Rightarrow> Inl (m, fs0)
             | Inr exb \<Rightarrow>
                 (let fs1 = (if exb then fst (fs_remove D b fs0) else fs0);
                      (fs2, ec) = fs_rename D t b fs1
                  in case ec of
                       None \<Rightarrow> Inr (Inr (r\<lparr>backup_path := b\<rparr>, fs2))
                     | Some m \<Rightarrow>
                         (let (fs3, ec') = fs_copy_file D t b fs2
                          in case ec' of
                               Some m' \<Rightarrow>
                                 Inr (Inl (r\<lparr>error_message :=
                                              ''failed to backup current launcher: '' @ m'\<rparr>,
                                           fst (fs_remove D s fs3)))
                             | None \<Rightarrow> Inr (Inr (r\<lparr>backup_path := b\<rparr>, fs3)))))
          else Inr (Inr (r, fs0)))"

definition rl_swap_throwing ::
  "fs_faults \<Rightarrow> path \<Rightarrow> update_result \<Rightarrow> filesystem
     \<Rightarrow> (string + update_result) \<times> filesystem" where
  "rl_swap_throwing D t r fs0 =
     (let b = backup_path_for t; s = staging_path t;
          (fs1, ec) = fs_rename D s t fs0
      in case ec of
           None \<Rightarrow> (Inr (r\<lparr>success := True\<rparr>), fs1)
         | Some m \<Rightarrow>
             (let (fs2, ec') = fs_copy_file D s t fs1
              in case ec' of
                   Some m' \<Rightarrow>
                     (let r1 = r\<lparr>error_message := ''failed to install new launcher: '' @ m'\<rparr>
                      in if backup_path r1 \<noteq> []
                         then (case fs_exists D fs2 b of
                                 Inl mx \<Rightarrow> (Inl mx, fs2)
                               | Inr exb \<Rightarrow>
                                   (Inr r1, if exb then fst (fs_rename D b t fs2) else fs2))
                         else (Inr r1, fs2))
                 | None \<Rightarrow> (Inr (r\<lparr>success := True\<rparr>), fst (fs_remove D s fs2))))"

definition replace_launcher_throwing ::
  "fs_faults \<Rightarrow> bool \<Rightarrow> path \<Rightarrow> path \<Rightarrow> filesystem
     \<Rightarrow> (string + update_result) \<times> filesystem" where
  "replace_launcher_throwing D px nb t fs0 =
     (let r = update_result_default\<lparr>installed_path := t\<rparr>;
          s = staging_path t;
          (fs1, ec) = fs_copy_file D nb s fs0
      in case ec of
           Some m \<Rightarrow> (Inr (r\<lparr>error_message := ''failed to copy new binary: '' @ m\<rparr>), fs1)
         | None \<Rightarrow>
             (let fs2 = (if px then fst (fs_permissions D s fs1) else fs1)
              in case rl_backup_throwing D t r fs2 of
                   Inl (m, fs3) \<Rightarrow> (Inl m, fs3)
                 | Inr (Inl (r', fs3)) \<Rightarrow> (Inr r', fs3)
                 | Inr (Inr (r', fs3)) \<Rightarrow> rl_swap_throwing D t r' fs3))"

subsection \<open>Download and extraction\<close>

definition current_executable_path :: "'v installer_env \<Rightarrow> path" where
  "current_executable_path E =
     (case native_exe_path E of
        Some p \<Rightarrow> p
      | None \<Rightarrow> (case cwd E of Some c \<Rightarrow> c | None \<Rightarrow> []))"

text \<open>
  \<^verbatim>\<open>download_archive\<close>: \<open>Inl\<close> is an exception of the transport, which leaves the
  coroutine. The progress callback is not modelled.
\<close>

definition download_archive ::
  "'v installer_env \<Rightarrow> 'v update_info \<Rightarrow> installer_state \<Rightarrow> (string + path) \<times> installer_state" where
  "download_archive E ui st =
     (let t = path_append (download_dir st) (ui_asset_name ui);
          fs1 = fst (fs_create_directories (deny E) (download_dir st) (fs st));
          (fs2, ex) = http_download E (ui_asset_url ui) t fs1
      in case ex of
           Some m \<Rightarrow> (Inl m, st\<lparr>fs := fs2\<rparr>)
         | None \<Rightarrow> (Inr t, st\<lparr>fs := fs2\<rparr>))"

text \<open>\<^verbatim>\<open>mz_zip_reader_extract_to_file\<close>: \<open>None\<close> when the entry cannot be written.\<close>

definition mz_zip_reader_extract_to_file ::
  "fs_faults \<Rightarrow> zip_entry \<Rightarrow> path \<Rightarrow> filesystem \<Rightarrow> filesystem option" where
  "mz_zip_reader_extract_to_file D z p fs0 =
     (case payload z of
        None \<Rightarrow> None
      | Some c \<Rightarrow>
          (case D (OpWrite p) of
             Some m \<Rightarrow> None
           | None \<Rightarrow>
               if p = [] \<or> is_directory fs0 p then None
               else Some (AList.update p (File c) fs0)))"

text \<open>
  The loop over the entries of a zip archive. The second component is the message of
  the \<^verbatim>\<open>runtime_error\<close> thrown, if any; what was extracted before stays on disk.
\<close>

fun zip_extract_all ::
  "fs_faults \<Rightarrow> path \<Rightarrow> zip_entry list \<Rightarrow> filesystem \<Rightarrow> filesystem \<times> string option" where
  "zip_extract_all D d [] fs0 = (fs0, None)"
| "zip_extract_all D d (z # zs) fs0 =
     (if \<not> stat_ok z then zip_extract_all D d zs fs0
      else if is_a_directory z then zip_extract_all D d zs fs0
      else
        let p = path_append d (m_filename z);
            fs1 = fst (fs_create_directories D (parent_path p) fs0)
        in case mz_zip_reader_extract_to_file D z p fs1 of
             None \<Rightarrow> (fs1, Some (''failed to extract: '' @ m_filename z))
           | Some fs2 \<Rightarrow> zip_extract_all D d zs fs2)"

definition dquote :: char where
  "dquote = CHR 0x22"

text \<open>
  The dispatch on the archive's name in \<^verbatim>\<open>extract_launcher\<close> and the unpacking it
  leads to. The second component is the message of the exception thrown, if any.
\<close>

definition unpack ::
  "'v installer_env \<Rightarrow> path \<Rightarrow> path \<Rightarrow> filesystem \<Rightarrow> filesystem \<times> string option" where
  "unpack E ap d fs0 =
     (let e = map tolower (extension ap);
          fn = filename ap;
          t = (length fn > 7 \<and> drop (length fn - 7) fn = ''.tar.xz'')
      in
        if e = ''.zip'' then
          (case (case lookup fs0 ap of Some (File c) \<Rightarrow> mz_zip_reader E c | _ \<Rightarrow> None) of
             None \<Rightarrow> (fs0, Some ''failed to open zip archive'')
           | Some zs \<Rightarrow> zip_extract_all (deny E) d zs fs0)
        else if t then
          (let c = ''tar -xJf '' @ [dquote] @ ap @ [dquote] @ '' -C '' @ [dquote] @ d @ [dquote];
               (fs1, r) = run_system E c fs0
           in if r \<noteq> 0 then (fs1, Some ''failed to extract tar.xz archive'') else (fs1, None))
        else (fs0, Some (''unsupported archive format: '' @ e)))"

definition bns :: "string list" where
  "bns = [''launcher'', ''iw4x-launcher'', ''launcher.exe'', ''iw4x-launcher.exe'']"

text \<open>The entries that a recursive traversal of \<open>d\<close> meets, in the order of the table.\<close>

definition recursive_directory_iterator :: "filesystem \<Rightarrow> path \<Rightarrow> path list" where
  "recursive_directory_iterator fs0 d = filter (under d) (map fst fs0)"

fun scan_tree :: "filesystem \<Rightarrow> path list \<Rightarrow> path option" where
  "scan_tree fs0 [] = None"
| "scan_tree fs0 (en # ens) =
     (if \<not> is_regular_file fs0 en then scan_tree fs0 ens
      else if filename en \<in> set bns then Some en
      else scan_tree fs0 ens)"

definition extract_launcher ::
  "'v installer_env \<Rightarrow> path \<Rightarrow> 'v update_info \<Rightarrow> installer_state \<Rightarrow> (string + path) \<times> installer_state" where
  "extract_launcher E ap ui st =
     (let d = path_append (download_dir st) ''launcher_update_extract'';
          fs1 = fst (fs_create_directories (deny E) d (fs st));
          st1 = st\<lparr>fs := fs1, temp_files := temp_files st @ [d]\<rparr>;
          (fs2, ex) = unpack E ap d fs1;
          st2 = st1\<lparr>fs := fs2\<rparr>
      in case ex of
           Some m \<Rightarrow> (Inl m, st2)
         | None \<Rightarrow>
             if \<not> is_directory fs2 d
             then (Inl ''recursive_directory_iterator: cannot open directory'', st2)
             else (case scan_tree fs2 (recursive_directory_iterator fs2 d) of
                     Some en \<Rightarrow> (Inr en, st2)
                   | None \<Rightarrow> (Inl ''launcher binary not found in archive'', st2)))"

subsection \<open>The pipeline\<close>

text \<open>
  The statements \<^verbatim>\<open>cleanup (); co_return r;\<close> inside the \<^verbatim>\<open>try\<close> block: \<open>Inr\<close> is the
  result returned, \<open>Inl\<close> an exception of \<^verbatim>\<open>cleanup\<close> together with the value that \<open>r\<close>
  has when it is thrown.
\<close>

definition install_finish ::
  "fs_faults \<Rightarrow> update_result \<Rightarrow> installer_state
     \<Rightarrow> ((string \<times> update_result) + update_result) \<times> installer_state" where
  "install_finish D r st =
     (case cleanup D st of
        (Some m, st') \<Rightarrow> (Inl (m, r), st')
      | (None, st') \<Rightarrow> (Inr r, st'))"

text \<open>
  The \<^verbatim>\<open>try\<close> block of \<^verbatim>\<open>install\<close>. \<open>Inl (m, r)\<close> is an exception with message \<open>m\<close>
  that reaches the handler while the result variable holds \<open>r\<close>; \<open>Inr r\<close> is a result
  that the block returns or falls through with.
\<close>

definition install_try ::
  "'v installer_env \<Rightarrow> 'v update_info \<Rightarrow> installer_state
     \<Rightarrow> ((string \<times> update_result) + update_result) \<times> installer_state" where
  "install_try E ui st =
     (let r = update_result_default in
      case download_archive E ui st of
        (Inl m, st1) \<Rightarrow> (Inl (m, r), st1)
      | (Inr a, st1) \<Rightarrow>
          (let st2 = st1\<lparr>temp_files := temp_files st1 @ [a]\<rparr>
           in case extract_launcher E a ui st2 of
                (Inl m, st3) \<Rightarrow> (Inl (m, r), st3)
              | (Inr b, st3) \<Rightarrow>
                  (let st4 = st3\<lparr>temp_files := temp_files st3 @ [b]\<rparr>
                   in case fs_exists (deny E) (fs st4) b of
                        Inl m \<Rightarrow> (Inl (m, r), st4)
                      | Inr exb \<Rightarrow>
                          if \<not> exb
                          then install_finish (deny E)
                                 (r\<lparr>error_message :=
                                      ''extraction failed: launcher binary not found''\<rparr>) st4
                          else
                            (case replace_launcher_throwing (deny E) (posix E) b
                                    (current_executable_path E) (fs st4) of
                               (Inl m, fs5) \<Rightarrow> (Inl (m, r), st4\<lparr>fs := fs5\<rparr>)
                             | (Inr r', fs5) \<Rightarrow>
                                 if \<not> success r'
                                 then (case rollback_throwing (deny E) r' fs5 of
                                         (Inl m, fs6) \<Rightarrow> (Inl (m, r'), st4\<lparr>fs := fs6\<rparr>)
                                       | (Inr ok, fs6) \<Rightarrow>
                                           install_finish (deny E) r' (st4\<lparr>fs := fs6\<rparr>))
                                 else install_finish (deny E) r' (st4\<lparr>fs := fs5\<rparr>)))))"

text \<open>
  The handler of \<^verbatim>\<open>install\<close> for an exception with message \<open>m\<close>, caught while the
  result variable holds \<open>r\<close>. An exception of the handler's own \<^verbatim>\<open>cleanup\<close> leaves
  \<^verbatim>\<open>install\<close>: that is \<open>Inl\<close>.
\<close>

definition install_catch ::
  "'v installer_env \<Rightarrow> string \<Rightarrow> update_result \<Rightarrow> installer_state
     \<Rightarrow> (string + update_result) \<times> installer_state" where
  "install_catch E m r st =
     (case cleanup (deny E) st of
        (Some m', st') \<Rightarrow> (Inl m', st')
      | (None, st') \<Rightarrow> (Inr (r\<lparr>success := False, error_message := m\<rparr>), st'))"

text \<open>\<^verbatim>\<open>install\<close>: \<open>Inr\<close> is the result returned, \<open>Inl\<close> an exception that leaves it.\<close>

definition install ::
  "'v installer_env \<Rightarrow> 'v update_info \<Rightarrow> installer_state
     \<Rightarrow> (string + update_result) \<times> installer_state" where
  "install E ui st =
     (let r = update_result_default in
      if info_empty E ui \<or> ui_asset_url ui = []
      then (Inr (r\<lparr>error_message := ''invalid update info''\<rparr>), st)
      else
        (case install_try E ui st of
           (Inl (m, r0), st') \<Rightarrow> install_catch E m r0 st'
         | (Inr r', st') \<Rightarrow> (Inr r', st')))"

section \<open>Concrete inputs\<close>

text \<open>A release list as the registry may return it, newest first, and a version parser.\<close>

definition example_asset :: asset_type where
  "example_asset =
     \<lparr>name = ''launcher-2.0.0-x86_64-linux-glibc.tar.xz'',
      browser_download_url = ''https://example.org/launcher-2.0.0-x86_64-linux-glibc.tar.xz'',
      size' = 4096\<rparr>"

definition example_release :: release_type where
  "example_release =
     \<lparr>tag_name = ''v2.0.0'', html_url = ''https://example.org/v2.0.0'', body = [],
      draft = False, prerelease = False, assets = [example_asset]\<rparr>"

definition example_draft :: release_type where
  "example_draft = example_release\<lparr>tag_name := ''v2.2.0'', draft := True\<rparr>"

definition example_prerelease :: release_type where
  "example_prerelease = example_release\<lparr>tag_name := ''v2.1.0-rc1'', prerelease := True\<rparr>"

definition example_parse :: "string \<Rightarrow> string option" where
  "example_parse s = (if s \<noteq> [] \<and> hd s \<in> set ''0123456789'' then Some s else None)"

definition example_discovery :: "string update_discovery" where
  "example_discovery =
     \<lparr>include_prerelease = False,
      get_releases = (\<lambda>ow rp n. Inr (take n [example_draft, example_prerelease, example_release])),
      parse_launcher_version = example_parse,
      current_platform = linux_x64,
      no_version = []\<rparr>"

text \<open>
  A disk with the running launcher and a freshly extracted binary, and an operating
  system that refuses to rename or copy the running image.
\<close>

definition example_target :: path where
  "example_target = ''/opt/iw4x/launcher''"

definition example_binary :: path where
  "example_binary = ''/tmp/launcher_update_extract/launcher''"

definition example_disk :: filesystem where
  "example_disk =
     [(''/opt/iw4x/launcher'', File ''old image''),
      (''/tmp/launcher_update_extract/launcher'', File ''new image'')]"

definition no_faults :: fs_faults where
  "no_faults op = None"

definition locked_image :: fs_faults where
  "locked_image op =
     (if op = OpRename example_target (backup_path_for example_target) \<or>
         op = OpCopyFile example_target (backup_path_for example_target)
      then Some ''Permission denied'' else None)"

text \<open>The same disk once the new binary is staged, and once the old one is moved away.\<close>

definition example_staged :: filesystem where
  "example_staged = example_disk @ [(''/opt/iw4x/launcher.new'', File ''new image'')]"

definition example_backed_up :: filesystem where
  "example_backed_up =
     [(''/tmp/launcher_update_extract/launcher'', File ''new image''),
      (''/opt/iw4x/launcher.new'', File ''new image''),
      (''/opt/iw4x/launcher.backup'', File ''old image'')]"

text \<open>An operating system that refuses to rename the staged binary into place.\<close>

definition rename_refused :: fs_faults where
  "rename_refused op =
     (if op = OpRename (staging_path example_target) example_target
      then Some ''Text file busy'' else None)"

text \<open>
  An installer with leftovers on its list: a path that is already gone, the archive,
  the extraction directory, the binary in it, and a file that a scanner holds open. The
  operating system refuses to delete the held file.
\<close>

definition example_leftovers :: installer_state where
  "example_leftovers =
     \<lparr>fs = [(''/tmp'', Dir),
             (''/tmp/scan.lock'', File ''held''),
             (''/tmp/launcher.zip'', File ''zip bytes''),
             (''/tmp/launcher_update_extract'', Dir),
             (''/tmp/launcher_update_extract/launcher'', File ''new image'')],
      download_dir = ''/tmp'',
      temp_files = [''/tmp/gone'', ''/tmp/launcher.zip'', ''/tmp/launcher_update_extract'',
                    ''/tmp/launcher_update_extract/launcher'', ''/tmp/scan.lock''],
      cleanups = 0\<rparr>"

definition held_open :: fs_faults where
  "held_open op = (if op = OpRemove ''/tmp/scan.lock'' then Some ''Permission denied'' else None)"

text \<open>
  A fresh installer on a disk with the running launcher, and an update for it. The
  archive holds a directory and the launcher binary.
\<close>

definition fresh_installer :: installer_state where
  "fresh_installer =
     \<lparr>fs = [(''/tmp'', Dir), (''/opt/iw4x/launcher'', File ''old image'')],
      download_dir = ''/tmp'', temp_files = [], cleanups = 0\<rparr>"

definition example_info :: "string update_info" where
  "example_info =
     \<lparr>ui_version = ''2.0.0'', ui_tag_name = ''v2.0.0'',
      ui_release_url = ''https://example.org/v2.0.0'', ui_prerelease = False, ui_body = [],
      ui_asset_url = ''https://example.org/launcher-2.0.0-x86_64-windows.zip'',
      ui_asset_name = ''launcher-2.0.0-x86_64-windows.zip'', ui_asset_size = 9\<rparr>"

definition example_archive :: "zip_entry list" where
  "example_archive =
     [\<lparr>stat_ok = True, is_a_directory = True, m_filename = ''bin/'', payload = None\<rparr>,
      \<lparr>stat_ok = True, is_a_directory = False, m_filename = ''bin/launcher'',
       payload = Some ''new image''\<rparr>]"

text \<open>
  A transport that delivers the archive, and one whose connection breaks after it has
  written the first bytes to the target file.
\<close>

definition example_env :: "string installer_env" where
  "example_env =
     \<lparr>deny = no_faults, posix = True,
      http_download = (\<lambda>url p f. (AList.update p (File ''zip bytes'') f, None)),
      mz_zip_reader = (\<lambda>c. if c = ''zip bytes'' then Some example_archive else None),
      run_system = (\<lambda>c f. (f, 0)),
      native_exe_path = Some example_target,
      cwd = Some ''/'',
      info_empty = (\<lambda>ui. ui_tag_name ui = [])\<rparr>"

definition broken_transport :: "string installer_env" where
  "broken_transport =
     example_env\<lparr>http_download :=
       (\<lambda>url p f. (AList.update p (File ''zip'') f, Some ''connection reset by peer''))\<rparr>"

text \<open>
  An extraction directory that has lost its permissions: it can be neither emptied nor
  searched, so the status of the binary in it cannot be read. And a process that can
  find neither its own image nor its working directory.
\<close>

definition status_denied :: fs_faults where
  "status_denied op =
     (if op = OpRemoveAll ''/tmp/launcher_update_extract'' \<or>
         op = OpStatus ''/tmp/launcher_update_extract/launcher''
      then Some ''Permission denied'' else None)"

definition homeless_env :: "string installer_env" where
  "homeless_env = example_env\<lparr>native_exe_path := None, cwd := None\<rparr>"

section \<open>Properties of release discovery\<close>

subsection \<open>Searching in strings\<close>

lemma str_find_zero_iff: "str_find n s = Some 0 \<longleftrightarrow> prefix s n"
  by (cases n) auto

lemma str_find_None_iff: "str_find n s = None \<longleftrightarrow> \<not> sublist s n"
  by (induction n) (auto simp: sublist_Cons_right)

lemma str_find_SomeD:
  "str_find n s = Some i \<Longrightarrow> i \<le> length n \<and> prefix s (drop i n)"
proof (induction n arbitrary: i)
  case Nil
  then show ?case by (auto split: if_splits)
next
  case (Cons c cs)
  show ?case
  proof (cases "prefix s (c # cs)")
    case True
    with Cons.prems have "i = 0" by simp
    with True show ?thesis by simp
  next
    case False
    with Cons.prems obtain j where "str_find cs s = Some j" "i = Suc j" by auto
    with Cons.IH [of j] show ?thesis by simp
  qed
qed

subsection \<open>Release selection\<close>

lemma pick_release_first:
  "\<forall>y\<in>set pre. draft y \<or> (prerelease y \<and> \<not> incl) \<Longrightarrow> \<not> draft x \<Longrightarrow> incl \<or> \<not> prerelease x \<Longrightarrow>
     pick_release incl (pre @ x # post) = Some x"
  by (induction pre) auto

lemma pick_release_none:
  "\<forall>y\<in>set rs. draft y \<or> (prerelease y \<and> \<not> incl) \<Longrightarrow> pick_release incl rs = None"
  by (induction rs) auto

lemma pick_release_sound:
  "pick_release incl rs = Some x \<Longrightarrow> x \<in> set rs \<and> \<not> draft x \<and> (incl \<or> \<not> prerelease x)"
  by (induction rs) (auto split: if_splits)

lemma release_to_update_info_prerelease:
  "ui_prerelease (release_to_update_info U x) \<Longrightarrow> prerelease x"
  by (auto simp: release_to_update_info_def update_info_default_def Let_def split: option.splits)

text \<open>
  C4. \<^verbatim>\<open>fetch_latest_release\<close> asks the registry for a batch with limit 20 and lets a
  network failure through. It walks the batch in order: when every release before \<open>x\<close>
  is a draft, or a prerelease while \<^verbatim>\<open>include_prerelease_\<close> is off, and \<open>x\<close> is no draft
  and passes the prerelease test, the result is the conversion of \<open>x\<close>, whatever
  follows \<open>x\<close> in the batch. When no release passes (the empty batch included) the
  result is the empty sentinel. The release picked is never a draft, and with the flag
  off it is no prerelease, nor is the returned info marked as one.
\<close>

theorem fetch_latest_release_first_match:
  "(\<forall>e. get_releases U ow rp 20 = Inl e \<longrightarrow> fetch_latest_release U ow rp = Inl e) \<and>
   (\<forall>rs. get_releases U ow rp 20 = Inr rs \<longrightarrow>
      (\<forall>pre x post.
          rs = pre @ x # post \<and>
          (\<forall>y\<in>set pre. draft y \<or> (prerelease y \<and> \<not> include_prerelease U)) \<and>
          \<not> draft x \<and> (include_prerelease U \<or> \<not> prerelease x) \<longrightarrow>
          fetch_latest_release U ow rp = Inr (release_to_update_info U x)) \<and>
      ((\<forall>y\<in>set rs. draft y \<or> (prerelease y \<and> \<not> include_prerelease U)) \<longrightarrow>
          fetch_latest_release U ow rp = Inr (update_info_default (no_version U))) \<and>
      (\<forall>x. pick_release (include_prerelease U) rs = Some x \<longrightarrow>
          x \<in> set rs \<and> \<not> draft x \<and> (\<not> include_prerelease U \<longrightarrow> \<not> prerelease x)) \<and>
      (\<not> include_prerelease U \<longrightarrow>
          (\<forall>ui. fetch_latest_release U ow rp = Inr ui \<longrightarrow> \<not> ui_prerelease ui)))"
proof (intro conjI allI impI)
  fix e assume "get_releases U ow rp 20 = Inl e"
  then show "fetch_latest_release U ow rp = Inl e"
    by (simp add: fetch_latest_release_def)
next
  fix rs pre x post
  assume g: "get_releases U ow rp 20 = Inr rs"
    and h: "rs = pre @ x # post \<and>
          (\<forall>y\<in>set pre. draft y \<or> (prerelease y \<and> \<not> include_prerelease U)) \<and>
          \<not> draft x \<and> (include_prerelease U \<or> \<not> prerelease x)"
  then have "pick_release (include_prerelease U) rs = Some x"
    using pick_release_first [of pre "include_prerelease U" x post] by blast
  with g h show "fetch_latest_release U ow rp = Inr (release_to_update_info U x)"
    by (simp add: fetch_latest_release_def)
next
  fix rs
  assume g: "get_releases U ow rp 20 = Inr rs"
    and h: "\<forall>y\<in>set rs. draft y \<or> (prerelease y \<and> \<not> include_prerelease U)"
  then have "pick_release (include_prerelease U) rs = None"
    by (rule_tac pick_release_none)
  with g show "fetch_latest_release U ow rp = Inr (update_info_default (no_version U))"
    by (simp add: fetch_latest_release_def)
next
  fix rs x
  assume "pick_release (include_prerelease U) rs = Some x"
  then show "x \<in> set rs" by (simp add: pick_release_sound)
next
  fix rs x
  assume "pick_release (include_prerelease U) rs = Some x"
  then show "\<not> draft x" by (simp add: pick_release_sound)
next
  fix rs x
  assume "pick_release (include_prerelease U) rs = Some x" "\<not> include_prerelease U"
  then show "\<not> prerelease x" using pick_release_sound by blast
next
  fix rs ui
  assume g: "get_releases U ow rp 20 = Inr rs" and n: "\<not> include_prerelease U"
    and f: "fetch_latest_release U ow rp = Inr ui"
  show "\<not> ui_prerelease ui"
  proof (cases "pick_release (include_prerelease U) rs")
    case None
    with g f have "ui = update_info_default (no_version U)"
      by (auto simp: fetch_latest_release_def split: if_splits)
    then show ?thesis by (simp add: update_info_default_def)
  next
    case (Some x)
    with n have px: "\<not> prerelease x" using pick_release_sound by blast
    from g f Some have "ui = update_info_default (no_version U) \<or> ui = release_to_update_info U x"
      by (auto simp: fetch_latest_release_def split: if_splits)
    with px show ?thesis
      using release_to_update_info_prerelease [of U x] by (auto simp: update_info_default_def)
  qed
qed

theorem fetch_latest_release_first_match_witness:
  "get_releases example_discovery ''iw4x'' ''launcher'' 20 =
     Inr ([example_draft, example_prerelease] @ example_release # []) \<and>
   draft example_draft \<and> prerelease example_prerelease \<and>
   include_prerelease example_discovery = False \<and>
   draft example_release = False \<and> prerelease example_release = False \<and>
   fetch_latest_release example_discovery ''iw4x'' ''launcher'' =
     Inr (release_to_update_info example_discovery example_release)"
proof -
  have g: "get_releases example_discovery ''iw4x'' ''launcher'' 20 =
     Inr ([example_draft, example_prerelease] @ example_release # [])"
    by (simp add: example_discovery_def)
  have h: "draft example_draft \<and> prerelease example_prerelease \<and>
     include_prerelease example_discovery = False \<and>
     draft example_release = False \<and> prerelease example_release = False"
    by (simp add: example_discovery_def example_draft_def example_prerelease_def
                  example_release_def)
  note first = fetch_latest_release_first_match
    [of example_discovery "''iw4x''" "''launcher''", THEN conjunct2, THEN spec, THEN mp,
     OF g, THEN conjunct1, THEN spec, THEN spec, THEN spec, THEN mp]
  have "fetch_latest_release example_discovery ''iw4x'' ''launcher'' =
          Inr (release_to_update_info example_discovery example_release)"
  proof (rule first [of "[example_draft, example_prerelease]" example_release "[]"])
    show "[example_draft, example_prerelease] @ [example_release] =
            [example_draft, example_prerelease] @ [example_release] \<and>
          (\<forall>y\<in>set [example_draft, example_prerelease].
              draft y \<or> prerelease y \<and> \<not> include_prerelease example_discovery) \<and>
          \<not> draft example_release \<and>
          (include_prerelease example_discovery \<or> \<not> prerelease example_release)"
      using h by simp
  qed
  with g h show ?thesis by simp
qed

subsection \<open>Asset selection\<close>

lemma scan_assets_Some:
  "scan_assets s e as = Some a \<Longrightarrow>
     a \<in> set as \<and> prefix ''launcher-'' (name a) \<and> sublist s (name a) \<and> sublist e (name a)"
  by (induction as)
     (auto split: if_splits simp: str_find_zero_iff str_find_None_iff simp del: str_find.simps)

lemma scan_assets_None:
  "\<forall>a\<in>set as. \<not> (prefix ''launcher-'' (name a) \<and> sublist s (name a) \<and> sublist e (name a)) \<Longrightarrow>
     scan_assets s e as = None"
  by (induction as) (auto simp: str_find_zero_iff str_find_None_iff simp del: str_find.simps)

text \<open>
  C5. \<^verbatim>\<open>find_platform_asset\<close> returns an asset only if it is one of the release's assets
  and its name starts with the prefix \<^verbatim>\<open>launcher-\<close> and contains both the platform
  token and the extension of the running platform's profile. It returns no match when
  the platform has no profile (\<open>unknown\<close> has none) and when no asset passes all three
  tests. The profiles are those of Windows and Linux, and the name
  \<^verbatim>\<open>launcher-1.2.3-x86_64-linux-glibc.zip\<close> does not match the Windows profile.
\<close>

theorem find_platform_asset_all_three:
  "(\<forall>a. find_platform_asset p r = Some a \<longrightarrow>
        a \<in> set (assets r) \<and>
        (\<exists>s e. platform_profile p = Some (s, e) \<and> prefix ''launcher-'' (name a) \<and>
               sublist s (name a) \<and> sublist e (name a))) \<and>
   (platform_profile p = None \<longrightarrow> find_platform_asset p r = None) \<and>
   (\<forall>s e. platform_profile p = Some (s, e) \<and>
          (\<forall>a\<in>set (assets r). \<not> (prefix ''launcher-'' (name a) \<and> sublist s (name a) \<and>
                                    sublist e (name a))) \<longrightarrow>
          find_platform_asset p r = None) \<and>
   platform_profile unknown = None \<and>
   platform_profile windows_x64 = Some (''x86_64-windows'', ''.zip'') \<and>
   platform_profile linux_x64 = Some (''x86_64-linux-glibc'', ''.tar.xz'') \<and>
   find_platform_asset windows_x64
     (r\<lparr>assets := [\<lparr>name = ''launcher-1.2.3-x86_64-linux-glibc.zip'',
                      browser_download_url = u, size' = n\<rparr>]\<rparr>) = None"
proof (intro conjI allI impI)
  fix a assume h: "find_platform_asset p r = Some a"
  then obtain s e where pp: "platform_profile p = Some (s, e)"
    and sc: "scan_assets s e (assets r) = Some a"
    by (auto simp: find_platform_asset_def split: if_splits option.splits)
  from sc show "a \<in> set (assets r)" by (simp add: scan_assets_Some)
  from sc pp show "\<exists>s e. platform_profile p = Some (s, e) \<and> prefix ''launcher-'' (name a) \<and>
               sublist s (name a) \<and> sublist e (name a)"
    using scan_assets_Some [of s e "assets r" a] by blast
next
  assume "platform_profile p = None"
  then show "find_platform_asset p r = None" by (simp add: find_platform_asset_def)
next
  fix s e
  assume "platform_profile p = Some (s, e) \<and>
          (\<forall>a\<in>set (assets r). \<not> (prefix ''launcher-'' (name a) \<and> sublist s (name a) \<and>
                                    sublist e (name a)))"
  then show "find_platform_asset p r = None"
    using scan_assets_None [of "assets r" s e] by (simp add: find_platform_asset_def)
next
  show "find_platform_asset windows_x64
     (r\<lparr>assets := [\<lparr>name = ''launcher-1.2.3-x86_64-linux-glibc.zip'',
                      browser_download_url = u, size' = n\<rparr>]\<rparr>) = None"
    by (simp add: find_platform_asset_def)
qed simp_all

theorem find_platform_asset_all_three_witness:
  "find_platform_asset linux_x64 example_release = Some example_asset \<and>
   example_asset \<in> set (assets example_release) \<and>
   prefix ''launcher-'' (name example_asset) \<and>
   sublist ''x86_64-linux-glibc'' (name example_asset) \<and>
   sublist ''.tar.xz'' (name example_asset) \<and>
   platform_profile other_platform = None \<and>
   find_platform_asset other_platform example_release = None"
proof -
  have f: "find_platform_asset linux_x64 example_release = Some example_asset"
    by (simp add: find_platform_asset_def example_release_def example_asset_def)
  have n: "platform_profile other_platform = None" by simp
  from find_platform_asset_all_three [of linux_x64 example_release] f
  have "example_asset \<in> set (assets example_release) \<and>
        (\<exists>s e. platform_profile linux_x64 = Some (s, e) \<and> prefix ''launcher-'' (name example_asset) \<and>
               sublist s (name example_asset) \<and> sublist e (name example_asset))"
    by blast
  moreover from find_platform_asset_all_three [of other_platform example_release] n
  have "find_platform_asset other_platform example_release = None" by blast
  ultimately show ?thesis using f n by auto
qed

subsection \<open>Version resolution\<close>

lemma suffix_pos_SomeD:
  "suffix_pos n ss = Some e \<Longrightarrow> e \<le> length n \<and> (\<exists>suf\<in>set ss. prefix suf (drop e n))"
  by (induction ss) (auto split: option.splits dest: str_find_SomeD)

lemma strip_parse_SomeD:
  assumes "(let p = P in
            if str_find n p \<noteq> Some 0 then None
            else let b = length p in
                 case suffix_pos n ss of
                   None \<Rightarrow> None
                 | Some e \<Rightarrow> if e \<le> b then None else parse (take (e - b) (drop b n))) = Some v"
  shows "\<exists>mid suf rest. n = P @ mid @ suf @ rest \<and> suf \<in> set ss \<and> mid \<noteq> [] \<and>
           parse mid = Some v"
proof -
  from assms have p0: "str_find n P = Some 0"
    by (auto simp: Let_def split: if_splits simp del: str_find.simps)
  with assms obtain e where e: "suffix_pos n ss = Some e" "length P < e"
    and pv: "parse (take (e - length P) (drop (length P) n)) = Some v"
    by (auto simp: Let_def split: if_splits option.splits simp del: str_find.simps)
  from p0 have "prefix P n" by (simp only: str_find_zero_iff)
  then have t9: "take (length P) n = P" by (auto simp: prefix_def)
  from e(1) obtain suf where le: "e \<le> length n" and suf: "suf \<in> set ss" "prefix suf (drop e n)"
    using suffix_pos_SomeD by blast
  from suf(2) obtain rest where rest: "drop e n = suf @ rest" by (auto simp: prefix_def)
  let ?mid = "take (e - length P) (drop (length P) n)"
  have "drop (length P) n = ?mid @ drop (e - length P) (drop (length P) n)"
    by (simp only: append_take_drop_id)
  also have "drop (e - length P) (drop (length P) n) = drop e n" using e(2) by simp
  finally have "drop (length P) n = ?mid @ suf @ rest" using rest by simp
  then have "n = take (length P) n @ ?mid @ suf @ rest" by (metis append_take_drop_id)
  with t9 have n: "n = P @ ?mid @ suf @ rest" by simp
  have "?mid \<noteq> []" using e(2) le by auto
  with n suf(1) pv show ?thesis by blast
qed

lemma parse_asset_version_SomeD:
  "parse_asset_version parse n = Some v \<Longrightarrow>
     \<exists>mid suf rest. n = ''launcher-'' @ mid @ suf @ rest \<and> suf \<in> set sufs \<and> mid \<noteq> [] \<and>
           parse mid = Some v"
  unfolding parse_asset_version_def by (rule strip_parse_SomeD)

text \<open>
  C6. For a release with a matched platform asset \<open>a\<close>, \<^verbatim>\<open>release_to_update_info\<close> takes
  the version parsed from the asset's name when that parse succeeds; the string parsed
  is then what stands between the prefix \<^verbatim>\<open>launcher-\<close> and a known platform suffix.
  When the parse of the name fails, the version is the one parsed from the release
  tag. When both fail, the result is the empty sentinel: the function is total and
  raises nothing.
\<close>

theorem release_to_update_info_version:
  assumes "find_platform_asset (current_platform U) r = Some a"
  shows "(\<forall>v. parse_asset_version (parse_launcher_version U) (name a) = Some v \<longrightarrow>
            release_to_update_info U r =
              \<lparr>ui_version = v, ui_tag_name = tag_name r, ui_release_url = html_url r,
               ui_prerelease = prerelease r, ui_body = body r,
               ui_asset_url = browser_download_url a, ui_asset_name = name a,
               ui_asset_size = size' a\<rparr> \<and>
            (\<exists>mid suf rest. name a = ''launcher-'' @ mid @ suf @ rest \<and> suf \<in> set sufs \<and>
               mid \<noteq> [] \<and> parse_launcher_version U mid = Some v)) \<and>
         (parse_asset_version (parse_launcher_version U) (name a) = None \<longrightarrow>
            (\<forall>v. parse_launcher_version U (tag_name r) = Some v \<longrightarrow>
               release_to_update_info U r =
                 \<lparr>ui_version = v, ui_tag_name = tag_name r, ui_release_url = html_url r,
                  ui_prerelease = prerelease r, ui_body = body r,
                  ui_asset_url = browser_download_url a, ui_asset_name = name a,
                  ui_asset_size = size' a\<rparr>) \<and>
            (parse_launcher_version U (tag_name r) = None \<longrightarrow>
               release_to_update_info U r = update_info_default (no_version U)))"
  using assms parse_asset_version_SomeD [of "parse_launcher_version U" "name a"]
  by (auto simp: release_to_update_info_def)

theorem release_to_update_info_version_witness:
  "find_platform_asset (current_platform example_discovery) example_release = Some example_asset \<and>
   parse_asset_version (parse_launcher_version example_discovery) (name example_asset) =
     Some ''2.0.0'' \<and>
   ui_version (release_to_update_info example_discovery example_release) = ''2.0.0''"
proof -
  have f: "find_platform_asset (current_platform example_discovery) example_release =
             Some example_asset"
    by (simp add: find_platform_asset_def example_release_def example_asset_def
                  example_discovery_def)
  have p: "parse_asset_version (parse_launcher_version example_discovery) (name example_asset) =
             Some ''2.0.0''"
    by (simp add: parse_asset_version_def example_asset_def example_discovery_def sufs_def
                  example_parse_def)
  from release_to_update_info_version [OF f] p
  have "ui_version (release_to_update_info example_discovery example_release) = ''2.0.0''"
    by simp
  with f p show ?thesis by simp
qed

section \<open>Properties of the replacement engine\<close>

subsection \<open>The file system operations\<close>

lemma lookup_update:
  "lookup (AList.update k v f) q = (if q = [] then None else if q = k then Some v else lookup f q)"
  by (simp add: lookup_def update_conv')

lemma lookup_delete: "lookup (AList.delete k f) q = (if q = k then None else lookup f q)"
  by (simp add: lookup_def delete_conv')

lemma lookup_filter:
  "lookup (filter (\<lambda>e. P (fst e)) f) q = (if P q then lookup f q else None)"
  by (induction f) (auto simp: lookup_def)

lemma lookup_Nil [simp]: "lookup f [] = None"
  by (simp add: lookup_def)

lemma exists_Nil [simp]: "\<not> exists f []"
  by (simp add: exists_def)

lemma fs_permissions_fst [simp]: "fst (fs_permissions D p f) = f"
  by (simp add: fs_permissions_def split: option.splits)

lemma fs_copy_file_cases:
  "fs_copy_file D a b f = (f', ec) \<Longrightarrow>
     (ec \<noteq> None \<and> f' = f) \<or>
     (ec = None \<and> b \<noteq> [] \<and> a \<noteq> b \<and> (\<exists>c. lookup f a = Some (File c) \<and> f' = AList.update b (File c) f))"
  by (auto simp: fs_copy_file_def split: option.splits node.splits if_splits)

lemma fs_copy_file_fail: "snd (fs_copy_file D a b f) = Some m \<Longrightarrow> fst (fs_copy_file D a b f) = f"
  by (auto simp: fs_copy_file_def split: option.splits node.splits if_splits)

lemma fs_copy_file_other: "q \<noteq> b \<Longrightarrow> lookup (fst (fs_copy_file D a b f)) q = lookup f q"
  by (auto simp: fs_copy_file_def lookup_update split: option.splits node.splits if_splits)

lemma fs_remove_other: "q \<noteq> p \<Longrightarrow> lookup (fst (fs_remove D p f)) q = lookup f q"
  by (simp add: fs_remove_def lookup_delete split: option.splits)

lemma fs_remove_file:
  "D (OpRemove p) = None \<Longrightarrow> \<not> is_directory f p \<Longrightarrow> lookup (fst (fs_remove D p f)) p = None"
  by (simp add: fs_remove_def lookup_delete)

lemma fs_rename_fail: "snd (fs_rename D a b f) = Some m \<Longrightarrow> fst (fs_rename D a b f) = f"
  by (auto simp: fs_rename_def split: option.splits node.splits if_splits)

lemma remove_stale_backup_other: "q \<noteq> b \<Longrightarrow> lookup (remove_stale_backup D b f) q = lookup f q"
  by (simp add: remove_stale_backup_def fs_remove_other)

lemma staging_neq [simp]: "staging_path t \<noteq> t" "t \<noteq> staging_path t"
  "staging_path t \<noteq> backup_path_for t" "backup_path_for t \<noteq> staging_path t"
  "backup_path_for t \<noteq> t" "t \<noteq> backup_path_for t" "backup_path_for t \<noteq> []" "staging_path t \<noteq> []"
  by (simp_all add: staging_path_def backup_path_for_def)


lemma subtree_moved:
  "subtree old k \<Longrightarrow> subtree new (new @ drop (length old) k)"
  by (auto simp: subtree_def under_def prefix_def)

lemma lookup_move_tree:
  assumes "\<not> subtree old q" "\<not> subtree new q"
  shows "lookup (move_tree old new f) q = lookup f q"
proof (cases "q = []")
  case True
  then show ?thesis by simp
next
  case False
  have "map_of (move_tree old new f) q = map_of f q"
  proof (induction f)
    case Nil
    then show ?case by (simp add: move_tree_def)
  next
    case (Cons e f)
    obtain k v where e: "e = (k, v)" by (cases e)
    from assms have qn: "q \<noteq> new" by (auto simp: subtree_def)
    show ?case
    proof (cases "subtree old k")
      case True
      with assms have kq: "k \<noteq> q" by auto
      from True have "subtree new (new @ drop (length old) k)" by (rule subtree_moved)
      with assms have "new @ drop (length old) k \<noteq> q" by auto
      with Cons kq True show ?thesis
        by (auto simp: move_tree_def e)
    next
      case False
      with Cons qn show ?thesis by (auto simp: move_tree_def e)
    qed
  qed
  with False show ?thesis by (simp add: lookup_def)
qed

lemma fs_rename_other:
  "\<not> subtree a q \<Longrightarrow> \<not> subtree b q \<Longrightarrow> lookup (fst (fs_rename D a b f)) q = lookup f q"
  by (auto simp: fs_rename_def lookup_update lookup_delete lookup_move_tree subtree_def
           split: option.splits node.splits)

lemma staging_not_subtree [simp]:
  "\<not> subtree t (staging_path t)" "\<not> subtree (backup_path_for t) (staging_path t)"
  by (simp_all add: subtree_def under_def staging_path_def backup_path_for_def)

lemma rl_backup_Inr:
  assumes "rl_backup D t r f = Inr (r1, f2)"
  shows "(r1 = r \<or> r1 = r\<lparr>backup_path := backup_path_for t\<rparr>) \<and>
         lookup f2 (staging_path t) = lookup f (staging_path t)"
proof -
  let ?b = "backup_path_for t" and ?s = "staging_path t"
  let ?f1 = "remove_stale_backup D ?b f"
  have a: "lookup ?f1 ?s = lookup f ?s" by (simp add: remove_stale_backup_other)
  have b: "lookup (fst (fs_rename D t ?b ?f1)) ?s = lookup f ?s"
    by (simp add: fs_rename_other a)
  have c: "lookup (fst (fs_copy_file D t ?b (fst (fs_rename D t ?b ?f1)))) ?s = lookup f ?s"
    by (simp add: fs_copy_file_other b)
  from assms a b c show ?thesis
    by (auto simp: rl_backup_def Let_def split_beta split: if_splits option.splits)
qed

lemma rl_swap_paths [simp]:
  "installed_path (fst (rl_swap D t r f)) = installed_path r"
  "backup_path (fst (rl_swap D t r f)) = backup_path r"
  by (simp_all add: rl_swap_def Let_def split_beta split: option.splits)

lemma rl_backup_Inl:
  "rl_backup D t r f = Inl (r1, f1) \<Longrightarrow>
     installed_path r1 = installed_path r \<and> backup_path r1 = backup_path r \<and> success r1 = success r"
  by (auto simp: rl_backup_def Let_def split_beta split: if_splits option.splits)

lemma exists_after_staging:
  "fs_copy_file D nb (staging_path t) fs0 = (fs1, ec) \<Longrightarrow> exists fs1 t = exists fs0 t"
  using fs_copy_file_other [of t "staging_path t" D nb fs0] by (simp add: exists_def)

lemma backup_recorded_iff:
  assumes st: "fs_copy_file D nb (staging_path t) fs0 = (fs1, ec)"
  shows "(backup_path (fst (replace_launcher D px nb t fs0)) \<noteq> []) =
           (ec = None \<and> exists fs0 t \<and>
            (snd (fs_rename D t (backup_path_for t)
                    (remove_stale_backup D (backup_path_for t) fs1)) = None \<or>
             snd (fs_copy_file D t (backup_path_for t)
                    (remove_stale_backup D (backup_path_for t) fs1)) = None))"
proof -
  let ?b = "backup_path_for t"
  let ?f2 = "remove_stale_backup D ?b fs1"
  have ex: "exists fs1 t = exists fs0 t" using st by (rule exists_after_staging)
  show ?thesis
  proof (cases ec)
    case (Some m)
    with st show ?thesis by (simp add: replace_launcher_def update_result_default_def)
  next
    case None
    then have e0: "ec = None" .
    show ?thesis
    proof (cases "exists fs0 t")
      case False
      with st e0 ex show ?thesis
        by (simp add: replace_launcher_def rl_backup_def update_result_default_def Let_def)
    next
      case True
      show ?thesis
      proof (cases "snd (fs_rename D t ?b ?f2)")
        case rn: None
        from st e0 ex True rn show ?thesis
          by (simp add: replace_launcher_def rl_backup_def update_result_default_def
                        Let_def split_beta)
      next
        case rn: (Some m)
        from fs_rename_fail [OF rn] have same: "fst (fs_rename D t ?b ?f2) = ?f2" .
        show ?thesis
        proof (cases "snd (fs_copy_file D t ?b ?f2)")
          case cp: None
          from st e0 ex True rn same cp show ?thesis
            by (simp add: replace_launcher_def rl_backup_def update_result_default_def
                          Let_def split_beta)
        next
          case cp: (Some m')
          from st e0 ex True rn same cp show ?thesis
            by (simp add: replace_launcher_def rl_backup_def update_result_default_def
                          Let_def split_beta)
        qed
      qed
    qed
  qed
qed


lemma replace_launcher_staged:
  assumes "fs_copy_file D nb (staging_path t) fs0 = (fs1, None)"
    and "rl_backup D t (update_result_default\<lparr>installed_path := t\<rparr>) fs1 = Inr (r1, fs2)"
  shows "replace_launcher D px nb t fs0 = rl_swap D t r1 fs2"
  using assms by (simp add: replace_launcher_def)


subsection \<open>The throwing status queries\<close>

text \<open>
  When the status queries on the target and on its backup path are answered, the
  functions with the throwing queries return what \<open>rollback\<close> and \<open>replace_launcher\<close>
  return.
\<close>

lemma rollback_throwing_answered:
  assumes "D (OpStatus (installed_path r)) = None" "D (OpStatus (backup_path r)) = None"
  shows "rollback_throwing D r f = (Inr (fst (rollback D r f)), snd (rollback D r f))"
  using assms
  by (simp add: rollback_throwing_def rollback_def fs_exists_def Let_def split_beta
           split: option.splits)

lemma rl_backup_throwing_answered:
  assumes "D (OpStatus t) = None" "D (OpStatus (backup_path_for t)) = None"
  shows "rl_backup_throwing D t r f = Inr (rl_backup D t r f)"
  using assms
  by (simp add: rl_backup_throwing_def rl_backup_def remove_stale_backup_def fs_exists_def
                Let_def split_beta split: option.splits)

lemma rl_swap_throwing_answered:
  assumes "D (OpStatus (backup_path_for t)) = None"
  shows "rl_swap_throwing D t r f = (Inr (fst (rl_swap D t r f)), snd (rl_swap D t r f))"
  using assms
  by (simp add: rl_swap_throwing_def rl_swap_def fs_exists_def Let_def split_beta
           split: option.splits)

lemma replace_launcher_throwing_answered:
  assumes "D (OpStatus t) = None" "D (OpStatus (backup_path_for t)) = None"
  shows "replace_launcher_throwing D px nb t f =
           (Inr (fst (replace_launcher D px nb t f)), snd (replace_launcher D px nb t f))"
  using assms
  by (simp add: replace_launcher_throwing_def replace_launcher_def rl_backup_throwing_answered
                rl_swap_throwing_answered Let_def split_beta split: option.splits sum.splits)

subsection \<open>Failure of the backup step\<close>

text \<open>
  C1, as the code has it. Let the new binary be staged, let the executable \<open>t\<close> exist,
  and let both the rename of \<open>t\<close> to its backup path and the copy that is tried next
  fail. Then \<^verbatim>\<open>replace_launcher\<close> returns a result that is not successful, records
  no backup path and carries the message of the failed copy; the entry at \<open>t\<close> is what
  it was before the call; and a rollback on that result returns failure and leaves the
  file system as it is. The staging file is not kept: the last thing the function does
  is to remove it, so it is gone unless that removal is refused.
\<close>

theorem replace_launcher_backup_failure:
  assumes staged: "fs_copy_file D nb (staging_path t) fs0 = (fs1, None)"
    and ex: "exists fs0 t"
    and rn: "snd (fs_rename D t (backup_path_for t)
                    (remove_stale_backup D (backup_path_for t) fs1)) = Some m1"
    and cp: "snd (fs_copy_file D t (backup_path_for t)
                    (remove_stale_backup D (backup_path_for t) fs1)) = Some m2"
  shows "\<exists>r fs'. replace_launcher D px nb t fs0 = (r, fs') \<and>
           success r = False \<and> backup_path r = [] \<and> installed_path r = t \<and>
           error_message r = ''failed to backup current launcher: '' @ m2 \<and>
           lookup fs' t = lookup fs0 t \<and>
           fs' = fst (fs_remove D (staging_path t)
                        (remove_stale_backup D (backup_path_for t) fs1)) \<and>
           (D (OpRemove (staging_path t)) = None \<longrightarrow> \<not> exists fs' (staging_path t)) \<and>
           rollback D' r fs' = (False, fs')"
proof -
  let ?b = "backup_path_for t" and ?s = "staging_path t"
  let ?fs2 = "remove_stale_backup D ?b fs1"
  let ?r = "update_result_default\<lparr>installed_path := t,
              error_message := ''failed to backup current launcher: '' @ m2\<rparr>"
  let ?fs' = "fst (fs_remove D ?s ?fs2)"
  from staged obtain c where c: "lookup fs0 nb = Some (File c)"
    and fs1: "fs1 = AList.update ?s (File c) fs0"
    using fs_copy_file_cases [of D nb ?s fs0 fs1 None] by auto
  have t1: "lookup fs1 t = lookup fs0 t" by (simp add: fs1 lookup_update exists_def)
  with ex have ex1: "exists fs1 t" by (simp add: exists_def)
  have s2: "lookup ?fs2 ?s = Some (File c)"
    by (simp add: remove_stale_backup_other fs1 lookup_update)
  have t2: "lookup ?fs2 t = lookup fs0 t"
    by (simp add: remove_stale_backup_other t1)
  have rl: "replace_launcher D px nb t fs0 = (?r, ?fs')"
    using staged ex1 rn cp fs_rename_fail [OF rn] fs_copy_file_fail [OF cp]
    by (simp add: replace_launcher_def rl_backup_def Let_def split_beta)
  have t': "lookup ?fs' t = lookup fs0 t"
    by (simp add: fs_remove_other t2)
  have gone: "D (OpRemove ?s) = None \<longrightarrow> \<not> exists ?fs' ?s"
    using s2 by (simp add: exists_def fs_remove_file is_directory_def)
  have rb: "rollback D' ?r ?fs' = (False, ?fs')"
    by (simp add: rollback_def update_result_default_def)
  show ?thesis
    using rl t' gone rb by (simp add: update_result_default_def)
qed

theorem replace_launcher_backup_failure_witness:
  "fs_copy_file locked_image example_binary (staging_path example_target) example_disk =
     (example_staged, None) \<and>
   exists example_disk example_target \<and>
   snd (fs_rename locked_image example_target (backup_path_for example_target)
          (remove_stale_backup locked_image (backup_path_for example_target) example_staged)) =
     Some ''Permission denied'' \<and>
   snd (fs_copy_file locked_image example_target (backup_path_for example_target)
          (remove_stale_backup locked_image (backup_path_for example_target) example_staged)) =
     Some ''Permission denied'' \<and>
   (\<exists>r fs'. replace_launcher locked_image True example_binary example_target example_disk =
              (r, fs') \<and>
            success r = False \<and> backup_path r = [] \<and>
            lookup fs' example_target = Some (File ''old image'') \<and>
            rollback no_faults r fs' = (False, fs'))"
proof -
  have h1: "fs_copy_file locked_image example_binary (staging_path example_target) example_disk =
     (example_staged, None)"
    by code_simp
  have h2: "exists example_disk example_target" by code_simp
  have h3: "snd (fs_rename locked_image example_target (backup_path_for example_target)
          (remove_stale_backup locked_image (backup_path_for example_target) example_staged)) =
     Some ''Permission denied''"
    by code_simp
  have h4: "snd (fs_copy_file locked_image example_target (backup_path_for example_target)
          (remove_stale_backup locked_image (backup_path_for example_target) example_staged)) =
     Some ''Permission denied''"
    by code_simp
  have old: "lookup example_disk example_target = Some (File ''old image'')" by code_simp
  from replace_launcher_backup_failure [OF h1 h2 h3 h4, of True no_faults] old
  have "\<exists>r fs'. replace_launcher locked_image True example_binary example_target example_disk =
              (r, fs') \<and>
            success r = False \<and> backup_path r = [] \<and>
            lookup fs' example_target = Some (File ''old image'') \<and>
            rollback no_faults r fs' = (False, fs')"
    by auto
  with h1 h2 h3 h4 show ?thesis by (intro conjI)
qed

text \<open>
  The specification has the staging file left for cleanup. On a disk where the running
  image can be neither renamed nor copied, the staging file exists after the first step
  and no longer exists when \<^verbatim>\<open>replace_launcher\<close> returns.
\<close>

theorem staging_file_left_counterexample:
  "fs_copy_file locked_image example_binary (staging_path example_target) example_disk =
     (example_staged, None) \<and>
   exists example_disk example_target \<and>
   snd (fs_rename locked_image example_target (backup_path_for example_target)
          (remove_stale_backup locked_image (backup_path_for example_target) example_staged)) =
     Some ''Permission denied'' \<and>
   snd (fs_copy_file locked_image example_target (backup_path_for example_target)
          (remove_stale_backup locked_image (backup_path_for example_target) example_staged)) =
     Some ''Permission denied'' \<and>
   exists example_staged (staging_path example_target) \<and>
   exists (snd (replace_launcher locked_image True example_binary example_target example_disk))
     (staging_path example_target) = False"
  by code_simp

subsection \<open>The fallback ladder of the swap\<close>

text \<open>
  C2. Let the new binary be staged and the backup step go through, and let the rename
  of the staging file to \<open>t\<close> fail. If the copy of the staging file over \<open>t\<close> succeeds,
  \<^verbatim>\<open>replace_launcher\<close> returns a successful result, removes the staging file, and
  \<open>t\<close> is a regular file with the bytes of the new binary. If the copy fails as well,
  the result is not successful and carries a message that ends with the copy's error;
  the file system is then what the rename of the backup to \<open>t\<close> leaves when a backup
  path was recorded and the backup exists, and is untouched otherwise.
\<close>

theorem replace_launcher_swap_fallback:
  assumes staged: "fs_copy_file D nb (staging_path t) fs0 = (fs1, None)"
    and backed: "rl_backup D t (update_result_default\<lparr>installed_path := t\<rparr>) fs1 = Inr (r1, fs2)"
    and rn: "snd (fs_rename D (staging_path t) t fs2) = Some m"
  shows "(\<forall>fs3. fs_copy_file D (staging_path t) t fs2 = (fs3, None) \<longrightarrow>
            replace_launcher D px nb t fs0 =
              (r1\<lparr>success := True\<rparr>, fst (fs_remove D (staging_path t) fs3)) \<and>
            lookup (snd (replace_launcher D px nb t fs0)) t = lookup fs0 nb \<and>
            is_regular_file (snd (replace_launcher D px nb t fs0)) t) \<and>
         (\<forall>m'. snd (fs_copy_file D (staging_path t) t fs2) = Some m' \<longrightarrow>
            replace_launcher D px nb t fs0 =
              (r1\<lparr>error_message := ''failed to install new launcher: '' @ m'\<rparr>,
               if backup_path r1 \<noteq> [] \<and> exists fs2 (backup_path_for t)
               then fst (fs_rename D (backup_path_for t) t fs2) else fs2) \<and>
            success (fst (replace_launcher D px nb t fs0)) = False \<and>
            error_message (fst (replace_launcher D px nb t fs0)) \<noteq> [])"
proof (intro conjI allI impI)
  let ?s = "staging_path t" and ?b = "backup_path_for t"
  note rl = replace_launcher_staged [OF staged backed, of px]
  note same = fs_rename_fail [OF rn]
  from staged obtain c where c: "lookup fs0 nb = Some (File c)"
    and fs1: "fs1 = AList.update ?s (File c) fs0"
    using fs_copy_file_cases [of D nb ?s fs0 fs1 None] by auto
  from rl_backup_Inr [OF backed] have r1: "success r1 = False"
    and s2: "lookup fs2 ?s = Some (File c)"
    by (auto simp: update_result_default_def fs1 lookup_update)
  {
    fix fs3 assume cp: "fs_copy_file D ?s t fs2 = (fs3, None)"
    show eq: "replace_launcher D px nb t fs0 = (r1\<lparr>success := True\<rparr>, fst (fs_remove D ?s fs3))"
      using rn same cp by (simp add: rl rl_swap_def Let_def split_beta)
    from cp s2 have fs3: "fs3 = AList.update t (File c) fs2" and tne: "t \<noteq> []"
      using fs_copy_file_cases [of D ?s t fs2 fs3 None] by auto
    have "lookup (fst (fs_remove D ?s fs3)) t = Some (File c)"
      using tne by (simp add: fs_remove_other fs3 lookup_update)
    with eq c show "lookup (snd (replace_launcher D px nb t fs0)) t = lookup fs0 nb"
      and "is_regular_file (snd (replace_launcher D px nb t fs0)) t"
      by (simp_all add: is_regular_file_def)
  }
  {
    fix m' assume cp: "snd (fs_copy_file D ?s t fs2) = Some m'"
    note same' = fs_copy_file_fail [OF cp]
    show eq: "replace_launcher D px nb t fs0 =
              (r1\<lparr>error_message := ''failed to install new launcher: '' @ m'\<rparr>,
               if backup_path r1 \<noteq> [] \<and> exists fs2 ?b
               then fst (fs_rename D ?b t fs2) else fs2)"
      using rn same cp same' by (simp add: rl rl_swap_def Let_def split_beta)
    from eq r1 show "success (fst (replace_launcher D px nb t fs0)) = False"
      and "error_message (fst (replace_launcher D px nb t fs0)) \<noteq> []"
      by simp_all
  }
qed

theorem replace_launcher_swap_fallback_witness:
  "fs_copy_file rename_refused example_binary (staging_path example_target) example_disk =
     (example_staged, None) \<and>
   rl_backup rename_refused example_target
     (update_result_default\<lparr>installed_path := example_target\<rparr>) example_staged =
     Inr (update_result_default\<lparr>installed_path := example_target,
            backup_path := backup_path_for example_target\<rparr>, example_backed_up) \<and>
   snd (fs_rename rename_refused (staging_path example_target) example_target example_backed_up) =
     Some ''Text file busy'' \<and>
   fs_copy_file rename_refused (staging_path example_target) example_target example_backed_up =
     (example_backed_up @ [(example_target, File ''new image'')], None) \<and>
   success (fst (replace_launcher rename_refused True example_binary example_target
                   example_disk)) \<and>
   lookup (snd (replace_launcher rename_refused True example_binary example_target example_disk))
     example_target = Some (File ''new image'')"
proof -
  have h1: "fs_copy_file rename_refused example_binary (staging_path example_target) example_disk =
     (example_staged, None)"
    by code_simp
  have h2: "rl_backup rename_refused example_target
     (update_result_default\<lparr>installed_path := example_target\<rparr>) example_staged =
     Inr (update_result_default\<lparr>installed_path := example_target,
            backup_path := backup_path_for example_target\<rparr>, example_backed_up)"
    by code_simp
  have h3: "snd (fs_rename rename_refused (staging_path example_target) example_target
                   example_backed_up) = Some ''Text file busy''"
    by code_simp
  have h4: "fs_copy_file rename_refused (staging_path example_target) example_target
              example_backed_up =
     (example_backed_up @ [(example_target, File ''new image'')], None)"
    by code_simp
  have new: "lookup example_disk example_binary = Some (File ''new image'')" by code_simp
  note fallback = replace_launcher_swap_fallback [OF h1 h2 h3, of True, THEN conjunct1,
    THEN spec, THEN mp, OF h4]
  from fallback [THEN conjunct1]
  have ok: "success (fst (replace_launcher rename_refused True example_binary example_target
                   example_disk))"
    by simp
  from fallback [THEN conjunct2, THEN conjunct1] new
  have "lookup (snd (replace_launcher rename_refused True example_binary example_target
                       example_disk)) example_target = Some (File ''new image'')"
    by simp
  with ok h1 h2 h3 h4 show ?thesis by (intro conjI)
qed

subsection \<open>The paths of the result\<close>

text \<open>
  C10, as the code has it. Every result of \<^verbatim>\<open>replace_launcher\<close> has the target \<open>t\<close> as
  its installed path, which is not empty when \<open>t\<close> is not. Its backup path is empty or
  the backup path of \<open>t\<close>. For every \<open>t\<close>, the test that guards \<^verbatim>\<open>rollback\<close> (one of the
  two paths is empty) holds exactly when the backup path is empty, and the backup path
  is not empty exactly when a backup was made in this call: the binary was staged, \<open>t\<close>
  existed, and the rename or else the copy of \<open>t\<close> to the backup path succeeded. With
  an empty backup path the rollback returns failure and changes nothing.
\<close>

theorem replace_launcher_installed_path:
  "installed_path (fst (replace_launcher D px nb t fs0)) = t \<and>
   (t \<noteq> [] \<longrightarrow> installed_path (fst (replace_launcher D px nb t fs0)) \<noteq> []) \<and>
   (backup_path (fst (replace_launcher D px nb t fs0)) = [] \<or>
    backup_path (fst (replace_launcher D px nb t fs0)) = backup_path_for t) \<and>
   ((backup_path (fst (replace_launcher D px nb t fs0)) = [] \<or>
     installed_path (fst (replace_launcher D px nb t fs0)) = []) =
    (backup_path (fst (replace_launcher D px nb t fs0)) = [])) \<and>
   ((backup_path (fst (replace_launcher D px nb t fs0)) \<noteq> []) =
    (snd (fs_copy_file D nb (staging_path t) fs0) = None \<and> exists fs0 t \<and>
     (snd (fs_rename D t (backup_path_for t)
             (remove_stale_backup D (backup_path_for t)
                (fst (fs_copy_file D nb (staging_path t) fs0)))) = None \<or>
      snd (fs_copy_file D t (backup_path_for t)
             (remove_stale_backup D (backup_path_for t)
                (fst (fs_copy_file D nb (staging_path t) fs0)))) = None))) \<and>
   (backup_path (fst (replace_launcher D px nb t fs0)) = [] \<longrightarrow>
      rollback D' (fst (replace_launcher D px nb t fs0)) f = (False, f))"
proof -
  let ?b = "backup_path_for t" and ?s = "staging_path t"
  let ?r = "fst (replace_launcher D px nb t fs0)"
  obtain fs1 ec where st: "fs_copy_file D nb ?s fs0 = (fs1, ec)" by (cases "fs_copy_file D nb ?s fs0")
  let ?f2 = "remove_stale_backup D ?b fs1"
  have ip: "installed_path ?r = t"
    using st
    by (auto simp: replace_launcher_def Let_def split: option.splits sum.splits
             dest: rl_backup_Inl rl_backup_Inr)
  note bp = backup_recorded_iff [OF st, of px]
  have bv: "backup_path ?r = [] \<or> backup_path ?r = ?b"
    using st
    by (auto simp: replace_launcher_def Let_def update_result_default_def
             split: option.splits sum.splits dest!: rl_backup_Inl rl_backup_Inr)
  have tne: "backup_path ?r \<noteq> [] \<Longrightarrow> t \<noteq> []"
    using bp by auto
  have rb: "backup_path ?r = [] \<longrightarrow> rollback D' ?r f = (False, f)"
    by (simp add: rollback_def)
  from st have ec: "snd (fs_copy_file D nb ?s fs0) = ec" and f1: "fst (fs_copy_file D nb ?s fs0) = fs1"
    by simp_all
  show ?thesis
    using ip bp bv tne rb unfolding ec f1 by auto
qed

theorem replace_launcher_installed_path_witness:
  "example_target \<noteq> [] \<and>
   installed_path (fst (replace_launcher no_faults True example_binary example_target
                          example_disk)) \<noteq> [] \<and>
   backup_path (fst (replace_launcher locked_image True example_binary example_target
                       example_disk)) = [] \<and>
   rollback no_faults
     (fst (replace_launcher locked_image True example_binary example_target example_disk))
     example_disk = (False, example_disk)"
proof -
  have h: "example_target \<noteq> []" by (simp add: example_target_def)
  have b: "backup_path (fst (replace_launcher locked_image True example_binary example_target
                       example_disk)) = []"
    by code_simp
  note t1 = replace_launcher_installed_path
    [of no_faults True example_binary example_target example_disk]
  note t2 = replace_launcher_installed_path
    [of locked_image True example_binary example_target example_disk no_faults example_disk]
  from t1 h have "installed_path (fst (replace_launcher no_faults True example_binary
                     example_target example_disk)) \<noteq> []"
    by blast
  moreover from t2 b have "rollback no_faults
     (fst (replace_launcher locked_image True example_binary example_target example_disk))
     example_disk = (False, example_disk)"
    by blast
  ultimately show ?thesis using h b by blast
qed

text \<open>
  The specification has every result carry a non-empty installed path. The target is
  what \<^verbatim>\<open>current_executable_path\<close> returns, and that is the empty path when neither the
  running image nor the working directory can be found: the installed path of the
  result is then empty.
\<close>

theorem installed_path_empty_counterexample:
  "current_executable_path homeless_env = [] \<and>
   installed_path (fst (replace_launcher no_faults True example_binary [] example_disk)) = [] \<and>
   fst (install homeless_env example_info fresh_installer) =
     Inr \<lparr>success = False, installed_path = [], backup_path = [],
          error_message = ''failed to install new launcher: No such file or directory''\<rparr>"
  by code_simp

section \<open>Properties of cleanup\<close>

lemma cleanup_cleanups [simp]: "cleanups (snd (cleanup D st)) = Suc (cleanups st)"
  by (simp add: cleanup_def Let_def split_beta split: option.splits)


lemma cleanup_raised: "cleanup D st = (Some m, st') \<Longrightarrow> fst (cleanup D st) = Some m"
  by simp



text \<open>
  C9. The removals of \<^verbatim>\<open>cleanup\<close> go through the overloads with an error code, and a
  refused removal is passed over: with the scanner's file held open, the call
  completes and the list is empty. The status queries that precede every removal do
  not: when the status of the binary in the extraction directory cannot be read,
  \<^verbatim>\<open>cleanup\<close> ends with the exception of \<^verbatim>\<open>fs::exists\<close>, the list of artifacts is what
  it was, the entry after the binary is still on disk although nothing refuses its
  removal, and a second call ends the same way.
\<close>

theorem cleanup_status_failure:
  "status_denied (OpStatus ''/tmp/launcher_update_extract/launcher'') =
     Some ''Permission denied'' \<and>
   ''/tmp/launcher_update_extract/launcher'' \<in> set (temp_files example_leftovers) \<and>
   fst (cleanup status_denied example_leftovers) = Some ''Permission denied'' \<and>
   temp_files (snd (cleanup status_denied example_leftovers)) = temp_files example_leftovers \<and>
   status_denied (OpRemove ''/tmp/scan.lock'') = None \<and>
   exists (fs (snd (cleanup status_denied example_leftovers))) ''/tmp/scan.lock'' \<and>
   exists (fs (snd (cleanup status_denied example_leftovers)))
     ''/tmp/launcher_update_extract/launcher'' \<and>
   fst (cleanup status_denied (snd (cleanup status_denied example_leftovers))) =
     Some ''Permission denied'' \<and>
   held_open (OpRemove ''/tmp/scan.lock'') = Some ''Permission denied'' \<and>
   fst (cleanup held_open example_leftovers) = None \<and>
   temp_files (snd (cleanup held_open example_leftovers)) = [] \<and>
   exists (fs (snd (cleanup held_open example_leftovers))) ''/tmp/launcher.zip'' = False"
  by code_simp

section \<open>Properties of the pipeline\<close>









lemma install_finish_cleanups [simp]:
  "cleanups (snd (install_finish D r st)) = Suc (cleanups st)"
  using cleanup_cleanups [of D st]
  by (cases "cleanup D st") (auto simp: install_finish_def split: option.splits)

lemma install_finish_Inr:
  "install_finish D r st = (Inr r', st') \<Longrightarrow> r' = r \<and> cleanup D st = (None, st')"
  by (auto simp: install_finish_def split: prod.splits option.splits)




lemma install_catch_cleanups [simp]:
  "cleanups (snd (install_catch E m r st)) = Suc (cleanups st)"
  using cleanup_cleanups [of "deny E" st]
  by (cases "cleanup (deny E) st") (auto simp: install_catch_def split: option.splits)








text \<open>
  C8. The extraction directory is put on the list of artifacts before anything is
  unpacked, but the archive's path is put there only after \<^verbatim>\<open>download_archive\<close> has
  returned. When the transport has written part of the archive and then raises,
  \<^verbatim>\<open>install\<close> catches the exception and runs \<^verbatim>\<open>cleanup\<close> on an empty list: the partial
  archive stays on disk.
\<close>

theorem install_partial_download_left_behind:
  "fst (download_archive broken_transport example_info fresh_installer) =
     Inl ''connection reset by peer'' \<and>
   exists (fs (snd (download_archive broken_transport example_info fresh_installer)))
     ''/tmp/launcher-2.0.0-x86_64-windows.zip'' \<and>
   temp_files (snd (download_archive broken_transport example_info fresh_installer)) = [] \<and>
   fst (install broken_transport example_info fresh_installer) =
     Inr \<lparr>success = False, installed_path = [], backup_path = [],
          error_message = ''connection reset by peer''\<rparr> \<and>
   cleanups (snd (install broken_transport example_info fresh_installer)) = 1 \<and>
   exists (fs (snd (install broken_transport example_info fresh_installer)))
     ''/tmp/launcher-2.0.0-x86_64-windows.zip''"
  by code_simp

text \<open>
  C7. The extension that selects the zip branch is compared in lower case, but the
  test for \<^verbatim>\<open>.tar.xz\<close> looks at the file name as it is. An archive named in upper case
  \<^verbatim>\<open>.TAR.XZ\<close> is therefore rejected as unsupported, while \<^verbatim>\<open>.tar.xz\<close> is handed to
  \<^verbatim>\<open>tar\<close> and \<^verbatim>\<open>.ZIP\<close> is read as a zip archive; an update whose asset is named so
  fails to install.
\<close>

theorem extract_launcher_tar_xz_case_sensitive:
  "fst (extract_launcher E ''/tmp/launcher-2.0.0-x86_64-linux-glibc.TAR.XZ'' ui st) =
     Inl ''unsupported archive format: .xz'' \<and>
   unpack E ''/tmp/launcher-2.0.0-x86_64-linux-glibc.TAR.XZ'' d f =
     (f, Some ''unsupported archive format: .xz'') \<and>
   unpack E ''/tmp/launcher-2.0.0-x86_64-linux-glibc.tar.xz'' d f =
     (fst (run_system E
             (''tar -xJf '' @ [dquote] @ ''/tmp/launcher-2.0.0-x86_64-linux-glibc.tar.xz'' @
              [dquote] @ '' -C '' @ [dquote] @ d @ [dquote]) f),
      if snd (run_system E
             (''tar -xJf '' @ [dquote] @ ''/tmp/launcher-2.0.0-x86_64-linux-glibc.tar.xz'' @
              [dquote] @ '' -C '' @ [dquote] @ d @ [dquote]) f) \<noteq> 0
      then Some ''failed to extract tar.xz archive'' else None) \<and>
   unpack E ''/tmp/launcher-2.0.0-x86_64-windows.ZIP'' d f =
     (case (case lookup f ''/tmp/launcher-2.0.0-x86_64-windows.ZIP'' of
              Some (File c) \<Rightarrow> mz_zip_reader E c | _ \<Rightarrow> None) of
        None \<Rightarrow> (f, Some ''failed to open zip archive'')
      | Some zs \<Rightarrow> zip_extract_all (deny E) d zs f) \<and>
   fst (install example_env
          (example_info\<lparr>ui_asset_name := ''launcher-2.0.0-x86_64-linux-glibc.TAR.XZ''\<rparr>)
          fresh_installer) =
     Inr \<lparr>success = False, installed_path = [], backup_path = [],
          error_message = ''unsupported archive format: .xz''\<rparr>"
proof -
  have low: "tolower CHR ''.'' = CHR ''.''" "tolower CHR ''X'' = CHR ''x''"
    "tolower CHR ''Z'' = CHR ''z''" "tolower CHR ''x'' = CHR ''x''"
    "tolower CHR ''z'' = CHR ''z''" "tolower CHR ''I'' = CHR ''i''"
    "tolower CHR ''P'' = CHR ''p''"
    by code_simp+
  have u: "unpack E ''/tmp/launcher-2.0.0-x86_64-linux-glibc.TAR.XZ'' d f =
     (f, Some ''unsupported archive format: .xz'')" for d f
    by (simp add: unpack_def extension_def filename_def low)
  have x: "fst (extract_launcher E ''/tmp/launcher-2.0.0-x86_64-linux-glibc.TAR.XZ'' ui st) =
     Inl ''unsupported archive format: .xz''"
    by (simp add: extract_launcher_def u Let_def)
  have t: "unpack E ''/tmp/launcher-2.0.0-x86_64-linux-glibc.tar.xz'' d f =
     (fst (run_system E
             (''tar -xJf '' @ [dquote] @ ''/tmp/launcher-2.0.0-x86_64-linux-glibc.tar.xz'' @
              [dquote] @ '' -C '' @ [dquote] @ d @ [dquote]) f),
      if snd (run_system E
             (''tar -xJf '' @ [dquote] @ ''/tmp/launcher-2.0.0-x86_64-linux-glibc.tar.xz'' @
              [dquote] @ '' -C '' @ [dquote] @ d @ [dquote]) f) \<noteq> 0
      then Some ''failed to extract tar.xz archive'' else None)"
    by (simp add: unpack_def extension_def filename_def low split_beta)
  have z: "unpack E ''/tmp/launcher-2.0.0-x86_64-windows.ZIP'' d f =
     (case (case lookup f ''/tmp/launcher-2.0.0-x86_64-windows.ZIP'' of
              Some (File c) \<Rightarrow> mz_zip_reader E c | _ \<Rightarrow> None) of
        None \<Rightarrow> (f, Some ''failed to open zip archive'')
      | Some zs \<Rightarrow> zip_extract_all (deny E) d zs f)"
    by (simp add: unpack_def extension_def filename_def low)
  have i: "fst (install example_env
          (example_info\<lparr>ui_asset_name := ''launcher-2.0.0-x86_64-linux-glibc.TAR.XZ''\<rparr>)
          fresh_installer) =
     Inr \<lparr>success = False, installed_path = [], backup_path = [],
          error_message = ''unsupported archive format: .xz''\<rparr>"
    by code_simp
  from x u t z i show ?thesis by (intro conjI)
qed

end
